theory Spec2Isabelle
  imports Main "HOL-Library.Char_ord" "HOL-Library.List_Lexorder"
begin

section \<open>Data model of the relay controller (relay\_controller.ts)\<close>

text \<open>
  The TypeScript interfaces become records; an optional property \<open>f?: T\<close> becomes a field
  of type \<open>T option\<close> (\<open>None\<close> = the property is absent). The two optional properties
  of a destination are the exception: a destination is an object that callers build and
  that \<open>addDestination\<close> merges with an object spread, which tells a property that is
  absent from one that is present with the value \<open>undefined\<close>, so these fields are of type
  \<open>js_prop\<close>, which keeps the two apart. The string union
  \<open>"youtube" | "linkedin"\<close> becomes a datatype. \<open>Date\<close> values are the integer number of
  milliseconds that \<open>getTime()\<close> returns, and the other numbers are integers. The fields
  \<open>startedAt\<close> and \<open>error\<close> exist in both \<open>PlatformStatus\<close> and \<open>RelayStatus\<close>; the ones of
  \<open>PlatformStatus\<close> carry the prefix \<open>p_\<close>. Likewise \<open>bitrate\<close> of \<open>RelayConfig\<close> is
  \<open>bitrate_c\<close>.
\<close>

datatype StreamPlatform = Youtube | Linkedin

datatype 'a js_prop = Absent | Undefined | Present 'a

record StreamDestination =
  platform :: StreamPlatform
  accountId :: string
  enabled :: bool
  streamKey :: "string js_prop"
  rtmpUrl :: "string js_prop"

record RelayConfig =
  bitrate_c :: int
  resolution :: string
  frameRate :: int
  audioQuality :: int
  encoder :: string
  preset :: string
  customParams :: "(string \<times> string) list option"

datatype Visibility = Public | Private | Unlisted

record StreamSettings =
  title :: string
  description :: string
  visibility :: Visibility
  tags :: "string list option"
  scheduledStartTime :: "int option"
  scheduledEndTime :: "int option"

record PlatformStatus =
  isStreaming :: bool
  streamId :: "string option"
  viewerCount :: "int option"
  p_startedAt :: "int option"
  p_error :: "string option"

record Platforms =
  youtube :: "PlatformStatus option"
  linkedin :: "PlatformStatus option"

record RelayStatus =
  isActive :: bool
  startedAt :: "int option"
  duration :: "int option"
  bitrate :: "int option"
  platforms :: Platforms
  error :: "string option"

text \<open>\<open>currentStatus.platforms[p]\<close> and \<open>currentStatus.platforms[p] = v\<close>.\<close>

fun platform_entry :: "Platforms \<Rightarrow> StreamPlatform \<Rightarrow> PlatformStatus option" where
  "platform_entry ps Youtube = youtube ps"
| "platform_entry ps Linkedin = linkedin ps"

fun set_entry :: "StreamPlatform \<Rightarrow> PlatformStatus \<Rightarrow> Platforms \<Rightarrow> Platforms" where
  "set_entry Youtube v ps = ps\<lparr>youtube := Some v\<rparr>"
| "set_entry Linkedin v ps = ps\<lparr>linkedin := Some v\<rparr>"

definition no_platforms :: Platforms where
  "no_platforms = \<lparr>youtube = None, linkedin = None\<rparr>"

text \<open>
  JavaScript truthiness of an optional string (\<open>streamId\<close>, \<open>accountId\<close>): \<open>undefined\<close>
  and the empty string are falsy. \<open>x?.isStreaming\<close> is truthy when the entry exists and
  its flag is set.
\<close>

fun truthy :: "string option \<Rightarrow> bool" where
  "truthy None = False"
| "truthy (Some s) = (s \<noteq> [])"

fun streaming :: "PlatformStatus option \<Rightarrow> bool" where
  "streaming None = False"
| "streaming (Some e) = isStreaming e"

fun entry_streamId :: "PlatformStatus option \<Rightarrow> string option" where
  "entry_streamId None = None"
| "entry_streamId (Some e) = streamId e"

subsection \<open>Errors\<close>

text \<open>
  Every error of the controller is a JavaScript \<open>Error\<close> carrying a message. The two
  precondition failures of \<open>startStream\<close> and the lookup failure of \<open>stopPlatformStream\<close>
  are created by the controller itself; \<open>External m\<close> is an error with message \<open>m\<close> thrown
  by a collaborator (a platform client or the data storage) and passed on unchanged.
\<close>

datatype relay_error =
    NotConfigured
  | NoDestinations
  | DestinationNotFound StreamPlatform "string option"
  | External string

fun platform_name :: "StreamPlatform \<Rightarrow> string" where
  "platform_name Youtube = ''YouTube''"
| "platform_name Linkedin = ''LinkedIn''"

fun message :: "relay_error \<Rightarrow> string" where
  "message NotConfigured = ''Relay not configured. Call configureRelay first.''"
| "message NoDestinations = ''No destinations configured. Add at least one destination.''"
| "message (DestinationNotFound p a) =
     platform_name p @ '' destination not found for account '' @
       (if truthy a then the a else ''any'')"
| "message (External m) = m"

subsection \<open>The environment\<close>

text \<open>
  Everything the controller reaches outside its own variables is recorded as a \<open>call\<close> in
  the trace of the state: the methods of the two platform clients (with the account the
  client was created for), \<open>saveData\<close> and \<open>getData\<close> of the data storage, \<open>new Date()\<close>
  and \<open>Math.random()\<close>. What a call answers is decided by the environment, as a function
  of the trace so far and of the call: \<open>Inl m\<close> is an \<open>Error\<close> with message \<open>m\<close> being
  thrown, \<open>Inr v\<close> a normal return (\<open>v\<close> is the \<open>id\<close> of the created resource; it is ignored
  for the methods that return nothing).
\<close>

datatype call =
    YtCreateBroadcast string StreamSettings
  | YtCreateStream string string string int
  | YtBindStreamToBroadcast string string string
  | YtStartBroadcast string string
  | YtEndBroadcast string string
  | LiCreateLiveEvent string StreamSettings
  | LiStartLiveEvent string string
  | LiEndLiveEvent string string
  | SaveData string
  | GetData string
  | NewDate
  | MathRandom

record env =
  outcome :: "call list \<Rightarrow> call \<Rightarrow> string + string"
  clock :: "call list \<Rightarrow> int"
  rand :: "call list \<Rightarrow> nat"

text \<open>
  The data storage (\<open>DataStorage = ExtendedStateManager | MockStateManager\<close>) is used by
  the controller through \<open>saveData(key, data)\<close> and \<open>getData(key)\<close> with three keys only.
  Both implementations either throw or write the value and clear the cache entry of the
  key, so that a later \<open>getData\<close> of the key returns what was saved last. The model keeps
  that durable content in the state, by value, as one optional record per key; whether a
  call throws is decided by the environment, and a throwing \<open>saveData\<close> writes nothing.
\<close>

record Storage =
  relay_config :: "RelayConfig option"
  stream_destinations :: "StreamDestination list option"
  stream_status :: "RelayStatus option"

datatype stored =
    StoredConfig RelayConfig
  | StoredDestinations "StreamDestination list"
  | StoredStatus RelayStatus

fun key_of :: "stored \<Rightarrow> string" where
  "key_of (StoredConfig _) = ''relay_config''"
| "key_of (StoredDestinations _) = ''stream_destinations''"
| "key_of (StoredStatus _) = ''stream_status''"

fun store_put :: "stored \<Rightarrow> Storage \<Rightarrow> Storage" where
  "store_put (StoredConfig c) st = st\<lparr>relay_config := Some c\<rparr>"
| "store_put (StoredDestinations ds) st = st\<lparr>stream_destinations := Some ds\<rparr>"
| "store_put (StoredStatus r) st = st\<lparr>stream_status := Some r\<rparr>"

subsection \<open>The module state\<close>

record relay =
  currentConfig :: "RelayConfig option"
  destinations :: "StreamDestination list"
  currentStatus :: RelayStatus
  streamProcessId :: "nat option"
  storage :: Storage
  trace :: "call list"

definition initialStatus :: RelayStatus where
  "initialStatus =
     \<lparr>isActive = False, startedAt = None, duration = None, bitrate = None,
      platforms = no_platforms, error = None\<rparr>"

definition module_load :: "Storage \<Rightarrow> relay" where
  "module_load st =
     \<lparr>currentConfig = None, destinations = [], currentStatus = initialStatus,
      streamProcessId = None, storage = st, trace = []\<rparr>"

definition extern :: "env \<Rightarrow> call \<Rightarrow> relay \<Rightarrow> (string + string) \<times> relay" where
  "extern E c s = (outcome E (trace s) c, s\<lparr>trace := trace s @ [c]\<rparr>)"

definition newDate :: "env \<Rightarrow> relay \<Rightarrow> int \<times> relay" where
  "newDate E s = (clock E (trace s), s\<lparr>trace := trace s @ [NewDate]\<rparr>)"

definition saveData :: "env \<Rightarrow> stored \<Rightarrow> relay \<Rightarrow> (relay_error + unit) \<times> relay" where
  "saveData E v s =
     (case extern E (SaveData (key_of v)) s of
        (Inl m, s1) \<Rightarrow> (Inl (External m), s1)
      | (Inr _, s1) \<Rightarrow> (Inr (), s1\<lparr>storage := store_put v (storage s1)\<rparr>))"

definition set_platform :: "StreamPlatform \<Rightarrow> PlatformStatus \<Rightarrow> relay \<Rightarrow> relay" where
  "set_platform p v s =
     s\<lparr>currentStatus := (currentStatus s)\<lparr>platforms := set_entry p v (platforms (currentStatus s))\<rparr>\<rparr>"

section \<open>Destination registry\<close>

text \<open>\<open>Array.prototype.findIndex\<close>: the first index whose element satisfies the predicate
  (\<open>None\<close> for the \<open>-1\<close> of JavaScript).\<close>

fun findIndex :: "('a \<Rightarrow> bool) \<Rightarrow> 'a list \<Rightarrow> nat option" where
  "findIndex P [] = None"
| "findIndex P (x # xs) =
     (if P x then Some 0 else map_option Suc (findIndex P xs))"

text \<open>The object spread \<open>{...a, ...b}\<close>: every own property of \<open>b\<close> wins, also one whose
  value is \<open>undefined\<close>; a property absent from \<open>b\<close> keeps what \<open>a\<close> has. The three required
  properties are always own properties of \<open>b\<close>.\<close>

definition spread :: "StreamDestination \<Rightarrow> StreamDestination \<Rightarrow> StreamDestination" where
  "spread a b =
     \<lparr>platform = platform b, accountId = accountId b, enabled = enabled b,
      streamKey = (case streamKey b of Absent \<Rightarrow> streamKey a | Undefined \<Rightarrow> Undefined
                   | Present k \<Rightarrow> Present k),
      rtmpUrl = (case rtmpUrl b of Absent \<Rightarrow> rtmpUrl a | Undefined \<Rightarrow> Undefined
                 | Present u \<Rightarrow> Present u)\<rparr>"

definition same_identity :: "StreamPlatform \<Rightarrow> string \<Rightarrow> StreamDestination \<Rightarrow> bool" where
  "same_identity p a d = (platform d = p \<and> accountId d = a)"

definition upsert :: "StreamDestination \<Rightarrow> StreamDestination list \<Rightarrow> StreamDestination list" where
  "upsert destination ds =
     (case findIndex (same_identity (platform destination) (accountId destination)) ds of
        Some existingIndex \<Rightarrow> ds[existingIndex := spread (ds ! existingIndex) destination]
      | None \<Rightarrow> ds @ [destination])"

definition addDestination :: "env \<Rightarrow> StreamDestination \<Rightarrow> relay \<Rightarrow> (relay_error + unit) \<times> relay" where
  "addDestination E destination s =
     (let s1 = s\<lparr>destinations := upsert destination (destinations s)\<rparr>
      in saveData E (StoredDestinations (destinations s1)) s1)"

section \<open>Starting and stopping one platform\<close>

text \<open>The three shapes of object that the controller assigns to a platform's slot.\<close>

definition live_entry :: "string \<Rightarrow> int \<Rightarrow> PlatformStatus" where
  "live_entry sid t =
     \<lparr>isStreaming = True, streamId = Some sid, viewerCount = None,
      p_startedAt = Some t, p_error = None\<rparr>"

definition failed_entry :: "string \<Rightarrow> PlatformStatus" where
  "failed_entry m =
     \<lparr>isStreaming = False, streamId = None, viewerCount = None,
      p_startedAt = None, p_error = Some m\<rparr>"

definition stopped_entry :: PlatformStatus where
  "stopped_entry =
     \<lparr>isStreaming = False, streamId = None, viewerCount = None,
      p_startedAt = None, p_error = None\<rparr>"

text \<open>\<open>currentConfig?.resolution || "720p"\<close> and \<open>currentConfig?.frameRate || 30\<close>: the
  empty string and zero are falsy.\<close>

definition config_resolution :: "relay \<Rightarrow> string" where
  "config_resolution s =
     (case currentConfig s of
        None \<Rightarrow> ''720p''
      | Some c \<Rightarrow> if resolution c = [] then ''720p'' else resolution c)"

definition config_frameRate :: "relay \<Rightarrow> int" where
  "config_frameRate s =
     (case currentConfig s of
        None \<Rightarrow> 30
      | Some c \<Rightarrow> if frameRate c = 0 then 30 else frameRate c)"

text \<open>The \<open>catch\<close> block of \<open>startYouTubeStream\<close> and of \<open>startLinkedInStream\<close>: the
  slot gets the failure entry and the error is passed on.\<close>

definition start_caught ::
  "StreamPlatform \<Rightarrow> string \<Rightarrow> relay \<Rightarrow> (relay_error + unit) \<times> relay" where
  "start_caught p m s = (Inl (External m), set_platform p (failed_entry m) s)"

definition startYouTubeStream ::
  "env \<Rightarrow> StreamDestination \<Rightarrow> StreamSettings \<Rightarrow> relay \<Rightarrow> (relay_error + unit) \<times> relay" where
  "startYouTubeStream E destination settings s =
     (case extern E (YtCreateBroadcast (accountId destination) settings) s of
        (Inl m, s1) \<Rightarrow> start_caught Youtube m s1
      | (Inr broadcast, s1) \<Rightarrow>
     (case extern E (YtCreateStream (accountId destination) (title settings)
                       (config_resolution s1) (config_frameRate s1)) s1 of
        (Inl m, s2) \<Rightarrow> start_caught Youtube m s2
      | (Inr stream, s2) \<Rightarrow>
     (case extern E (YtBindStreamToBroadcast (accountId destination) broadcast stream) s2 of
        (Inl m, s3) \<Rightarrow> start_caught Youtube m s3
      | (Inr _, s3) \<Rightarrow>
     (case extern E (YtStartBroadcast (accountId destination) broadcast) s3 of
        (Inl m, s4) \<Rightarrow> start_caught Youtube m s4
      | (Inr _, s4) \<Rightarrow>
     (case newDate E s4 of
        (t, s5) \<Rightarrow> (Inr (), set_platform Youtube (live_entry broadcast t) s5))))))"

definition startLinkedInStream ::
  "env \<Rightarrow> StreamDestination \<Rightarrow> StreamSettings \<Rightarrow> relay \<Rightarrow> (relay_error + unit) \<times> relay" where
  "startLinkedInStream E destination settings s =
     (case extern E (LiCreateLiveEvent (accountId destination) settings) s of
        (Inl m, s1) \<Rightarrow> start_caught Linkedin m s1
      | (Inr liveEvent, s1) \<Rightarrow>
     (case extern E (LiStartLiveEvent (accountId destination) liveEvent) s1 of
        (Inl m, s2) \<Rightarrow> start_caught Linkedin m s2
      | (Inr _, s2) \<Rightarrow>
     (case newDate E s2 of
        (t, s3) \<Rightarrow> (Inr (), set_platform Linkedin (live_entry liveEvent t) s3))))"

text \<open>
  \<open>stopPlatformStream(platform, accountId?)\<close>. The destination is looked up with
  \<open>destinations.find\<close>; a falsy \<open>accountId\<close> matches every destination of the platform.
  Both the failed lookup and a failing client call leave through the \<open>catch\<close> block, which
  rejects with the same error.
\<close>

definition stopPlatformStream ::
  "env \<Rightarrow> StreamPlatform \<Rightarrow> string option \<Rightarrow> relay \<Rightarrow> (relay_error + unit) \<times> relay" where
  "stopPlatformStream E p accountId_opt s =
     (if p = Youtube \<and> streaming (youtube (platforms (currentStatus s))) then
        (case find (\<lambda>d. platform d = Youtube \<and>
                     (if truthy accountId_opt then accountId d = the accountId_opt else True))
                (destinations s) of
           None \<Rightarrow> (Inl (DestinationNotFound Youtube accountId_opt), s)
         | Some youtubeDestination \<Rightarrow>
             (case (if truthy (entry_streamId (youtube (platforms (currentStatus s))))
                    then extern E (YtEndBroadcast (accountId youtubeDestination)
                           (the (entry_streamId (youtube (platforms (currentStatus s)))))) s
                    else (Inr [], s)) of
                (Inl m, s1) \<Rightarrow> (Inl (External m), s1)
              | (Inr _, s1) \<Rightarrow> (Inr (), set_platform Youtube stopped_entry s1)))
      else if p = Linkedin \<and> streaming (linkedin (platforms (currentStatus s))) then
        (case find (\<lambda>d. platform d = Linkedin \<and>
                     (if truthy accountId_opt then accountId d = the accountId_opt else True))
                (destinations s) of
           None \<Rightarrow> (Inl (DestinationNotFound Linkedin accountId_opt), s)
         | Some linkedinDestination \<Rightarrow>
             (case (if truthy (entry_streamId (linkedin (platforms (currentStatus s))))
                    then extern E (LiEndLiveEvent (accountId linkedinDestination)
                           (the (entry_streamId (linkedin (platforms (currentStatus s)))))) s
                    else (Inr [], s)) of
                (Inl m, s1) \<Rightarrow> (Inl (External m), s1)
              | (Inr _, s1) \<Rightarrow> (Inr (), set_platform Linkedin stopped_entry s1)))
      else (Inr (), s))"

section \<open>The exported operations\<close>

definition configureRelay :: "env \<Rightarrow> RelayConfig \<Rightarrow> relay \<Rightarrow> (relay_error + unit) \<times> relay" where
  "configureRelay E config s =
     (case saveData E (StoredConfig config) s of
        (Inl e, s1) \<Rightarrow> (Inl e, s1)
      | (Inr _, s1) \<Rightarrow> (Inr (), s1\<lparr>currentConfig := Some config\<rparr>))"

text \<open>
  \<open>removeDestination\<close> filters the list and saves it first; only then, when the stream
  is active and the platform has a slot with a truthy \<open>streamId\<close>, it calls
  \<open>stopPlatformStream(platform, accountId)\<close>.
\<close>

definition removeDestination ::
  "env \<Rightarrow> StreamPlatform \<Rightarrow> string \<Rightarrow> relay \<Rightarrow> (relay_error + unit) \<times> relay" where
  "removeDestination E p a s =
     (let s1 = s\<lparr>destinations := filter (\<lambda>d. \<not> same_identity p a d) (destinations s)\<rparr>
      in case saveData E (StoredDestinations (destinations s1)) s1 of
           (Inl e, s2) \<Rightarrow> (Inl e, s2)
         | (Inr _, s2) \<Rightarrow>
             (if isActive (currentStatus s2) \<and>
                 platform_entry (platforms (currentStatus s2)) p \<noteq> None
              then
                (if p = Youtube \<and> truthy (entry_streamId (youtube (platforms (currentStatus s2))))
                 then stopPlatformStream E Youtube (Some a) s2
                 else if p = Linkedin \<and>
                         truthy (entry_streamId (linkedin (platforms (currentStatus s2))))
                 then stopPlatformStream E Linkedin (Some a) s2
                 else (Inr (), s2))
              else (Inr (), s2)))"

text \<open>
  The body of the \<open>for\<close> loop of \<open>startStream\<close>: the platform's start function inside its
  own \<open>try\<close>, whose \<open>catch\<close> writes the failure entry (again) and goes on.
\<close>

definition startPlatform ::
  "env \<Rightarrow> StreamSettings \<Rightarrow> StreamDestination \<Rightarrow> relay \<Rightarrow> (relay_error + unit) \<times> relay" where
  "startPlatform E settings destination s =
     (if platform destination = Youtube then startYouTubeStream E destination settings s
      else startLinkedInStream E destination settings s)"

definition startDestination :: "env \<Rightarrow> StreamSettings \<Rightarrow> StreamDestination \<Rightarrow> relay \<Rightarrow> relay" where
  "startDestination E settings destination s =
     (case startPlatform E settings destination s of
        (Inl e, s1) \<Rightarrow> set_platform (platform destination) (failed_entry (message e)) s1
      | (Inr _, s1) \<Rightarrow> s1)"

text \<open>The block "Initialize stream status" of \<open>startStream\<close>.\<close>

definition beginStream :: "env \<Rightarrow> relay \<Rightarrow> relay" where
  "beginStream E s =
     (case newDate E s of (t, s1) \<Rightarrow>
        s1\<lparr>currentStatus :=
             \<lparr>isActive = True, startedAt = Some t, duration = None, bitrate = None,
              platforms = no_platforms, error = None\<rparr>\<rparr>)"

text \<open>The outer \<open>catch\<close> of \<open>startStream\<close>.\<close>

definition start_rejected :: "relay_error \<Rightarrow> relay \<Rightarrow> (relay_error + unit) \<times> relay" where
  "start_rejected e s =
     (Inl e, s\<lparr>currentStatus := (currentStatus s)\<lparr>isActive := False, error := Some (message e)\<rparr>\<rparr>)"

definition startStream :: "env \<Rightarrow> StreamSettings \<Rightarrow> relay \<Rightarrow> (relay_error + unit) \<times> relay" where
  "startStream E settings s =
     (if isActive (currentStatus s) then (Inr (), s)
      else if currentConfig s = None then start_rejected NotConfigured s
      else if destinations s = [] then start_rejected NoDestinations s
      else
        (let s2 = beginStream E s;
             enabledDestinations = filter enabled (destinations s2);
             s3 = fold (startDestination E settings) enabledDestinations s2;
             s4 = s3\<lparr>streamProcessId := Some (rand E (trace s3) mod 10000),
                     trace := trace s3 @ [MathRandom]\<rparr>
         in (case saveData E (StoredStatus (currentStatus s4)) s4 of
               (Inl e, s5) \<Rightarrow> start_rejected e s5
             | (Inr _, s5) \<Rightarrow> (Inr (), s5))))"

text \<open>One of the two steps "Stop streaming to each platform" of \<open>stopStream\<close>:
  \<open>if (currentStatus.platforms.p?.isStreaming) await stopPlatformStream(p)\<close>.\<close>

definition stopIfStreaming :: "env \<Rightarrow> StreamPlatform \<Rightarrow> relay \<Rightarrow> (relay_error + unit) \<times> relay" where
  "stopIfStreaming E p s =
     (if streaming (platform_entry (platforms (currentStatus s)) p)
      then stopPlatformStream E p None s else (Inr (), s))"

text \<open>The rest of \<open>stopStream\<close> after the two steps: "Update status", "Calculate
  duration" (\<open>Math.floor\<close> of the difference in milliseconds over 1000) and the save.\<close>

definition finishStop :: "env \<Rightarrow> relay \<Rightarrow> (relay_error + unit) \<times> relay" where
  "finishStop E s2 =
     (let s3 = s2\<lparr>currentStatus := (currentStatus s2)\<lparr>isActive := False\<rparr>,
                  streamProcessId := None\<rparr>;
          s4 = (case startedAt (currentStatus s3) of
                  None \<Rightarrow> s3
                | Some t0 \<Rightarrow>
                    (case newDate E s3 of (endTime, s') \<Rightarrow>
                       s'\<lparr>currentStatus :=
                            (currentStatus s')\<lparr>duration := Some ((endTime - t0) div 1000)\<rparr>\<rparr>))
      in saveData E (StoredStatus (currentStatus s4)) s4)"

definition stopStream :: "env \<Rightarrow> relay \<Rightarrow> (relay_error + unit) \<times> relay" where
  "stopStream E s =
     (if \<not> isActive (currentStatus s) then (Inr (), s)
      else
        (case stopIfStreaming E Youtube s of
           (Inl e, s1) \<Rightarrow> (Inl e, s1)
         | (Inr _, s1) \<Rightarrow>
        (case stopIfStreaming E Linkedin s1 of
           (Inl e, s2) \<Rightarrow> (Inl e, s2)
         | (Inr _, s2) \<Rightarrow> finishStop E s2)))"

definition getRelayStatus :: "relay \<Rightarrow> RelayStatus" where
  "getRelayStatus s = currentStatus s"

text \<open>
  \<open>initialize\<close>, run once when the module is loaded. Each \<open>getData\<close> may throw; the inner
  \<open>catch\<close> then abandons the rest of the loading and keeps what was assigned so far. The
  function itself never rejects.
\<close>

definition interrupted :: string where
  "interrupted = ''Stream was interrupted due to application restart''"

definition initialize :: "env \<Rightarrow> relay \<Rightarrow> relay" where
  "initialize E s =
     (case extern E (GetData ''relay_config'') s of
        (Inl _, s1) \<Rightarrow> s1
      | (Inr _, s1) \<Rightarrow>
     (let s2 = (case relay_config (storage s1) of
                  None \<Rightarrow> s1 | Some savedConfig \<Rightarrow> s1\<lparr>currentConfig := Some savedConfig\<rparr>)
      in case extern E (GetData ''stream_destinations'') s2 of
        (Inl _, s3) \<Rightarrow> s3
      | (Inr _, s3) \<Rightarrow>
     (let s4 = (case stream_destinations (storage s3) of
                  None \<Rightarrow> s3
                | Some savedDestinations \<Rightarrow> s3\<lparr>destinations := savedDestinations\<rparr>)
      in case extern E (GetData ''stream_status'') s4 of
        (Inl _, s5) \<Rightarrow> s5
      | (Inr _, s5) \<Rightarrow>
          (case stream_status (storage s5) of
             None \<Rightarrow> s5
           | Some savedStatus \<Rightarrow>
               (if isActive savedStatus then
                  (let corrected = savedStatus\<lparr>isActive := False, error := Some interrupted\<rparr>
                   in case saveData E (StoredStatus corrected) s5 of
                        (Inl _, s6) \<Rightarrow> s6
                      | (Inr _, s6) \<Rightarrow> s6\<lparr>currentStatus := corrected\<rparr>)
                else s5\<lparr>currentStatus := savedStatus\<rparr>)))))"

text \<open>
  The module ends with \<open>initialize().catch(console.error)\<close>: the call is not awaited, so
  the module finishes loading, and its exported operations can be served, while
  \<open>initialize\<close> is suspended at one of its four \<open>await\<close>s. \<open>init_step\<close> is the piece of
  \<open>initialize\<close> that runs when the awaited storage call settles, up to the next \<open>await\<close> or
  to the end; the program counter says which call is awaited and, at the last \<open>await\<close>,
  carries the local \<open>savedStatus\<close>. \<open>init_run E k s\<close> is \<open>initialize\<close> after \<open>k\<close> pieces.
\<close>

datatype init_pc = AwaitConfig | AwaitDestinations | AwaitStatus | AwaitSave RelayStatus | Finished

fun init_step :: "env \<Rightarrow> init_pc \<Rightarrow> relay \<Rightarrow> init_pc \<times> relay" where
  "init_step E AwaitConfig s =
     (case extern E (GetData ''relay_config'') s of
        (Inl _, s1) \<Rightarrow> (Finished, s1)
      | (Inr _, s1) \<Rightarrow>
          (AwaitDestinations,
           case relay_config (storage s1) of
             None \<Rightarrow> s1 | Some savedConfig \<Rightarrow> s1\<lparr>currentConfig := Some savedConfig\<rparr>))"
| "init_step E AwaitDestinations s =
     (case extern E (GetData ''stream_destinations'') s of
        (Inl _, s3) \<Rightarrow> (Finished, s3)
      | (Inr _, s3) \<Rightarrow>
          (AwaitStatus,
           case stream_destinations (storage s3) of
             None \<Rightarrow> s3
           | Some savedDestinations \<Rightarrow> s3\<lparr>destinations := savedDestinations\<rparr>))"
| "init_step E AwaitStatus s =
     (case extern E (GetData ''stream_status'') s of
        (Inl _, s5) \<Rightarrow> (Finished, s5)
      | (Inr _, s5) \<Rightarrow>
          (case stream_status (storage s5) of
             None \<Rightarrow> (Finished, s5)
           | Some savedStatus \<Rightarrow>
               (if isActive savedStatus
                then (AwaitSave (savedStatus\<lparr>isActive := False, error := Some interrupted\<rparr>), s5)
                else (Finished, s5\<lparr>currentStatus := savedStatus\<rparr>))))"
| "init_step E (AwaitSave corrected) s =
     (case saveData E (StoredStatus corrected) s of
        (Inl _, s6) \<Rightarrow> (Finished, s6)
      | (Inr _, s6) \<Rightarrow> (Finished, s6\<lparr>currentStatus := corrected\<rparr>))"
| "init_step E Finished s = (Finished, s)"

fun init_steps :: "env \<Rightarrow> nat \<Rightarrow> init_pc \<times> relay \<Rightarrow> init_pc \<times> relay" where
  "init_steps E 0 c = c"
| "init_steps E (Suc k) c = init_steps E k (init_step E (fst c) (snd c))"

definition init_run :: "env \<Rightarrow> nat \<Rightarrow> relay \<Rightarrow> init_pc \<times> relay" where
  "init_run E k s = init_steps E k (AwaitConfig, s)"

section \<open>The account store of the state manager (state\_manager.ts)\<close>

text \<open>
  \<open>StateManager\<close> keeps accounts in a Deno KV store under the key
  \<open>["accounts", platform, id]\<close> and caches what it reads in two maps, \<open>cache\<close> and
  \<open>cacheExpiry\<close>, keyed by \<open>JSON.stringify\<close> of the key parts. That function is injective
  on lists of strings, so the model keys the caches by the list of key parts itself. A
  cache slot holds either one account or a list of accounts. The KV store is an association
  list with one entry per key; \<open>kv.list({prefix})\<close> yields the entries whose key properly
  extends the prefix, in the order of their keys (part by part, strings by their bytes).
  Every operation takes the value \<open>now\<close> that \<open>Date.now()\<close> has while it runs, and
  \<open>fault\<close>: \<open>Some m\<close> when the KV call of the operation throws an error with message \<open>m\<close>.
\<close>

record Account =
  acct_id :: string
  acct_platform :: StreamPlatform
  accessToken :: string
  refreshToken :: string
  expiresAt :: int
  profile :: "(string \<times> string) list option"

type_synonym kv_key = "string list"

datatype cached = CachedAccount Account | CachedAccounts "Account list"

record StateManager =
  kv :: "(kv_key \<times> Account) list"
  cache :: "kv_key \<Rightarrow> cached option"
  cacheExpiry :: "kv_key \<Rightarrow> int option"

definition DEFAULT_CACHE_TTL :: int where
  "DEFAULT_CACHE_TTL = 5 * 60 * 1000"

definition ACCOUNTS_PREFIX :: kv_key where
  "ACCOUNTS_PREFIX = [''accounts'']"

fun platform_key :: "StreamPlatform \<Rightarrow> string" where
  "platform_key Youtube = ''youtube''"
| "platform_key Linkedin = ''linkedin''"

fun kv_set :: "kv_key \<Rightarrow> Account \<Rightarrow> (kv_key \<times> Account) list \<Rightarrow> (kv_key \<times> Account) list" where
  "kv_set k v [] = [(k, v)]"
| "kv_set k v ((k', v') # rest) =
     (if k' = k then (k, v) # rest else (k', v') # kv_set k v rest)"

definition kv_delete :: "kv_key \<Rightarrow> (kv_key \<times> Account) list \<Rightarrow> (kv_key \<times> Account) list" where
  "kv_delete k xs = filter (\<lambda>(k', _). k' \<noteq> k) xs"

definition kv_list :: "kv_key \<Rightarrow> (kv_key \<times> Account) list \<Rightarrow> Account list" where
  "kv_list prefix xs =
     map snd (sort_key fst
       (filter (\<lambda>(k, _). length prefix < length k \<and> take (length prefix) k = prefix) xs))"

definition getCachedValue :: "int \<Rightarrow> kv_key \<Rightarrow> StateManager \<Rightarrow> cached option \<times> StateManager" where
  "getCachedValue now key sm =
     (case cacheExpiry sm key of
        None \<Rightarrow> (None, sm)
      | Some expiry \<Rightarrow>
          if expiry \<noteq> 0 \<and> expiry > now then (cache sm key, sm)
          else if expiry \<noteq> 0
               then (None, sm\<lparr>cache := (cache sm)(key := None),
                               cacheExpiry := (cacheExpiry sm)(key := None)\<rparr>)
               else (None, sm))"

definition setCachedValue :: "int \<Rightarrow> kv_key \<Rightarrow> cached \<Rightarrow> int \<Rightarrow> StateManager \<Rightarrow> StateManager" where
  "setCachedValue now key v ttl sm =
     sm\<lparr>cache := (cache sm)(key \<mapsto> v), cacheExpiry := (cacheExpiry sm)(key \<mapsto> now + ttl)\<rparr>"

definition clearCacheKey :: "kv_key \<Rightarrow> StateManager \<Rightarrow> StateManager" where
  "clearCacheKey key sm =
     sm\<lparr>cache := (cache sm)(key := None), cacheExpiry := (cacheExpiry sm)(key := None)\<rparr>"

definition saveAccount :: "string option \<Rightarrow> Account \<Rightarrow> StateManager \<Rightarrow> (string + unit) \<times> StateManager" where
  "saveAccount fault account sm =
     (let key = ACCOUNTS_PREFIX @ [platform_key (acct_platform account), acct_id account]
      in case fault of
           Some m \<Rightarrow> (Inl (''Failed to save account: '' @ m), sm)
         | None \<Rightarrow>
             (Inr (), clearCacheKey ACCOUNTS_PREFIX
                        (clearCacheKey key (sm\<lparr>kv := kv_set key account (kv sm)\<rparr>))))"

text \<open>A slot of the wrong shape cannot sit under a key (keys of one account have three
  parts, keys of lists one or two); the model treats it as a miss.\<close>

definition getAccount ::
  "int \<Rightarrow> string option \<Rightarrow> StreamPlatform \<Rightarrow> string \<Rightarrow> StateManager
     \<Rightarrow> (string + Account option) \<times> StateManager" where
  "getAccount now fault p ident sm =
     (let key = ACCOUNTS_PREFIX @ [platform_key p, ident]
      in case getCachedValue now key sm of
           (Some (CachedAccount cachedAccount), sm1) \<Rightarrow> (Inr (Some cachedAccount), sm1)
         | (_, sm1) \<Rightarrow>
             (case fault of
                Some m \<Rightarrow> (Inl (''Failed to get account: '' @ m), sm1)
              | None \<Rightarrow>
                  (case map_of (kv sm1) key of
                     Some v \<Rightarrow>
                       (Inr (Some v), setCachedValue now key (CachedAccount v) DEFAULT_CACHE_TTL sm1)
                   | None \<Rightarrow> (Inr None, sm1))))"

definition getAccountsByPlatform ::
  "int \<Rightarrow> string option \<Rightarrow> StreamPlatform \<Rightarrow> StateManager
     \<Rightarrow> (string + Account list) \<times> StateManager" where
  "getAccountsByPlatform now fault p sm =
     (let prefix = ACCOUNTS_PREFIX @ [platform_key p]
      in case getCachedValue now prefix sm of
           (Some (CachedAccounts cachedAccounts), sm1) \<Rightarrow> (Inr cachedAccounts, sm1)
         | (_, sm1) \<Rightarrow>
             (case fault of
                Some m \<Rightarrow> (Inl (''Failed to get accounts by platform: '' @ m), sm1)
              | None \<Rightarrow>
                  (let accounts = kv_list prefix (kv sm1)
                   in (Inr accounts,
                       setCachedValue now prefix (CachedAccounts accounts) DEFAULT_CACHE_TTL sm1))))"

definition getAllAccounts ::
  "int \<Rightarrow> string option \<Rightarrow> StateManager \<Rightarrow> (string + Account list) \<times> StateManager" where
  "getAllAccounts now fault sm =
     (case getCachedValue now ACCOUNTS_PREFIX sm of
        (Some (CachedAccounts cachedAccounts), sm1) \<Rightarrow> (Inr cachedAccounts, sm1)
      | (_, sm1) \<Rightarrow>
          (case fault of
             Some m \<Rightarrow> (Inl (''Failed to get all accounts: '' @ m), sm1)
           | None \<Rightarrow>
               (let accounts = kv_list ACCOUNTS_PREFIX (kv sm1)
                in (Inr accounts,
                    setCachedValue now ACCOUNTS_PREFIX (CachedAccounts accounts)
                      DEFAULT_CACHE_TTL sm1))))"

definition deleteAccount ::
  "string option \<Rightarrow> StreamPlatform \<Rightarrow> string \<Rightarrow> StateManager \<Rightarrow> (string + unit) \<times> StateManager" where
  "deleteAccount fault p ident sm =
     (let key = ACCOUNTS_PREFIX @ [platform_key p, ident]
      in case fault of
           Some m \<Rightarrow> (Inl (''Failed to delete account: '' @ m), sm)
         | None \<Rightarrow>
             (Inr (), clearCacheKey (ACCOUNTS_PREFIX @ [platform_key p])
                        (clearCacheKey ACCOUNTS_PREFIX
                           (clearCacheKey key (sm\<lparr>kv := kv_delete key (kv sm)\<rparr>)))))"

definition empty_manager :: StateManager where
  "empty_manager = \<lparr>kv = [], cache = Map.empty, cacheExpiry = Map.empty\<rparr>"

section \<open>Vocabulary of the properties\<close>

text \<open>The client a call is made on: its platform and the account it was created for.\<close>

fun call_target :: "call \<Rightarrow> (StreamPlatform \<times> string) option" where
  "call_target (YtCreateBroadcast a _) = Some (Youtube, a)"
| "call_target (YtCreateStream a _ _ _) = Some (Youtube, a)"
| "call_target (YtBindStreamToBroadcast a _ _) = Some (Youtube, a)"
| "call_target (YtStartBroadcast a _) = Some (Youtube, a)"
| "call_target (YtEndBroadcast a _) = Some (Youtube, a)"
| "call_target (LiCreateLiveEvent a _) = Some (Linkedin, a)"
| "call_target (LiStartLiveEvent a _) = Some (Linkedin, a)"
| "call_target (LiEndLiveEvent a _) = Some (Linkedin, a)"
| "call_target (SaveData _) = None"
| "call_target (GetData _) = None"
| "call_target NewDate = None"
| "call_target MathRandom = None"


fun is_save :: "call \<Rightarrow> bool" where
  "is_save (SaveData _) = True"
| "is_save _ = False"

text \<open>The first call that the start sequence of a destination makes on its client.\<close>

definition first_call :: "StreamSettings \<Rightarrow> StreamDestination \<Rightarrow> call" where
  "first_call settings d =
     (case platform d of
        Youtube \<Rightarrow> YtCreateBroadcast (accountId d) settings
      | Linkedin \<Rightarrow> LiCreateLiveEvent (accountId d) settings)"

text \<open>A call made on behalf of destination \<open>d\<close>: a method of the client created for its
  account on its platform, or the reading of the clock for the entry's \<open>startedAt\<close>.\<close>

definition call_for :: "StreamDestination \<Rightarrow> call \<Rightarrow> bool" where
  "call_for d c = (c = NewDate \<or> call_target c = Some (platform d, accountId d))"


text \<open>The calls recorded between state \<open>s\<close> and a later state \<open>s'\<close>.\<close>

definition new_calls :: "relay \<Rightarrow> relay \<Rightarrow> call list" where
  "new_calls s s' = drop (length (trace s)) (trace s')"

definition runs_on :: "relay \<Rightarrow> relay \<Rightarrow> bool" where
  "runs_on s s' = (trace s' = trace s @ new_calls s s')"

text \<open>The error with which \<open>startStream\<close> rejects a call that fails a precondition check.\<close>

definition rejection :: "relay \<Rightarrow> relay_error" where
  "rejection s = (if currentConfig s = None then NotConfigured else NoDestinations)"

text \<open>The identity of a destination in the registry.\<close>

definition identity :: "StreamDestination \<Rightarrow> StreamPlatform \<times> string" where
  "identity d = (platform d, accountId d)"

text \<open>Two invariants of the module state: an active relay has a configuration, and the
  identities in the registry are pairwise distinct.\<close>

definition active_implies_configured :: "relay \<Rightarrow> bool" where
  "active_implies_configured s = (isActive (currentStatus s) \<longrightarrow> currentConfig s \<noteq> None)"

definition registry_distinct :: "relay \<Rightarrow> bool" where
  "registry_distinct s = distinct (map identity (destinations s))"

text \<open>The same for the list kept in the store under \<open>stream_destinations\<close>, from which
  \<open>initialize\<close> fills the registry.\<close>

definition store_distinct :: "relay \<Rightarrow> bool" where
  "store_distinct s =
     (case stream_destinations (storage s) of
        None \<Rightarrow> True
      | Some ds \<Rightarrow> distinct (map identity ds))"

section \<open>Concrete scenarios\<close>

text \<open>
  Environments and states used to run the model. In \<open>scripted bad m\<close> every call that
  satisfies \<open>bad\<close> throws an error with message \<open>m\<close>, every other call returns normally
  (the YouTube client the id \<open>yt-1\<close>, the LinkedIn client the id \<open>li-1\<close>); the clock advances
  by one second with every recorded call.
\<close>

fun answer :: "call \<Rightarrow> string" where
  "answer c =
     (case call_target c of
        Some (Youtube, _) \<Rightarrow> ''yt-1''
      | Some (Linkedin, _) \<Rightarrow> ''li-1''
      | None \<Rightarrow> [])"

definition scripted :: "(call \<Rightarrow> bool) \<Rightarrow> string \<Rightarrow> env" where
  "scripted bad m =
     \<lparr>outcome = (\<lambda>tr c. if bad c then Inl m else Inr (answer c)),
      clock = (\<lambda>tr. 1000 * int (length tr)),
      rand = (\<lambda>tr. 4711)\<rparr>"

text \<open>Nothing fails; nothing fails and every client returns an id made of its account;
  the client of one account fails; that client and every save fail; every save fails.\<close>

definition calm :: env where
  "calm = scripted (\<lambda>c. False) []"

definition by_account :: env where
  "by_account =
     \<lparr>outcome = (\<lambda>tr c. Inr (case call_target c of
                                 Some (Youtube, a) \<Rightarrow> ''yt-'' @ a
                               | Some (Linkedin, a) \<Rightarrow> ''li-'' @ a
                               | None \<Rightarrow> [])),
      clock = (\<lambda>tr. 1000 * int (length tr)),
      rand = (\<lambda>tr. 4711)\<rparr>"

definition account_down :: "StreamPlatform \<Rightarrow> string \<Rightarrow> string \<Rightarrow> env" where
  "account_down p a m = scripted (\<lambda>c. call_target c = Some (p, a)) m"

definition account_and_store_down :: "StreamPlatform \<Rightarrow> string \<Rightarrow> string \<Rightarrow> env" where
  "account_and_store_down p a m = scripted (\<lambda>c. call_target c = Some (p, a) \<or> is_save c) m"


definition cfg_720p :: RelayConfig where
  "cfg_720p =
     \<lparr>bitrate_c = 2500, resolution = ''720p'', frameRate = 30, audioQuality = 128,
      encoder = ''x264'', preset = ''veryfast'', customParams = None\<rparr>"

definition settings_T :: StreamSettings where
  "settings_T =
     \<lparr>title = ''T'', description = ''D'', visibility = Public, tags = None,
      scheduledStartTime = None, scheduledEndTime = None\<rparr>"

definition yt_acc1 :: StreamDestination where
  "yt_acc1 =
     \<lparr>platform = Youtube, accountId = ''acc1'', enabled = True, streamKey = Absent, rtmpUrl = Absent\<rparr>"

definition yt_acc2 :: StreamDestination where
  "yt_acc2 =
     \<lparr>platform = Youtube, accountId = ''acc2'', enabled = True, streamKey = Absent, rtmpUrl = Absent\<rparr>"

definition yt_keyed :: StreamDestination where
  "yt_keyed =
     \<lparr>platform = Youtube, accountId = ''acc1'', enabled = True, streamKey = Present ''k1'',
      rtmpUrl = Absent\<rparr>"

definition li_acc1 :: StreamDestination where
  "li_acc1 =
     \<lparr>platform = Linkedin, accountId = ''acc1'', enabled = True, streamKey = Absent, rtmpUrl = Absent\<rparr>"

definition empty_storage :: Storage where
  "empty_storage = \<lparr>relay_config = None, stream_destinations = None, stream_status = None\<rparr>"

text \<open>A configured, inactive relay with the given destinations; the relay after a start in
  which both platforms went live; and the relay after that stream has been stopped again.\<close>

definition configured :: "StreamDestination list \<Rightarrow> relay" where
  "configured ds =
     \<lparr>currentConfig = Some cfg_720p, destinations = ds, currentStatus = initialStatus,
      streamProcessId = None, storage = empty_storage, trace = []\<rparr>"

definition on_air :: relay where
  "on_air = snd (startStream calm settings_T (configured [yt_acc1, li_acc1]))"


text \<open>The store after the controller was configured, given its two destinations and
  started: what a restart finds when the process ended while the stream was live.\<close>

definition saved_on_air :: Storage where
  "saved_on_air =
     \<lparr>relay_config = Some cfg_720p, stream_destinations = Some [yt_acc1, li_acc1],
      stream_status = Some (currentStatus on_air)\<rparr>"

text \<open>The state manager after \<open>getAccountsByPlatform("youtube")\<close> at time 0 on an empty store,
  and after a following \<open>saveAccount\<close> of a YouTube account.\<close>

definition acct_a :: Account where
  "acct_a =
     \<lparr>acct_id = ''acc1'', acct_platform = Youtube, accessToken = ''token'',
      refreshToken = ''refresh'', expiresAt = 0, profile = None\<rparr>"

definition listed :: StateManager where
  "listed = snd (getAccountsByPlatform 0 None Youtube empty_manager)"

definition listed_saved :: StateManager where
  "listed_saved = snd (saveAccount None acct_a listed)"

text \<open>
  The states of the module: it is loaded on an empty store or, at a restart, on the store
  that an earlier run has left; from then on the pieces of \<open>initialize\<close> and the exported
  operations run in any order, each in any environment.
\<close>

inductive reachable :: "relay \<Rightarrow> bool" where
  fresh: "reachable (module_load empty_storage)"
| restart: "reachable s \<Longrightarrow> reachable (module_load (storage s))"
| piece: "reachable s \<Longrightarrow> reachable (snd (init_step E pc s))"
| configure: "reachable s \<Longrightarrow> reachable (snd (configureRelay E c s))"
| add: "reachable s \<Longrightarrow> reachable (snd (addDestination E d s))"
| remove: "reachable s \<Longrightarrow> reachable (snd (removeDestination E p a s))"
| start: "reachable s \<Longrightarrow> reachable (snd (startStream E st s))"
| stop: "reachable s \<Longrightarrow> reachable (snd (stopStream E s))"

section \<open>Verified properties\<close>

subsection \<open>The scenario states\<close>

text \<open>
  The state \<open>configured ds\<close> has the variables of the module as the exported operations
  leave them after the module was loaded on an empty store, configured, and given the
  destinations one by one; only the store and the trace, which record those calls, differ.
\<close>

lemma configured_reached:
  "snd (addDestination calm li_acc1
     (snd (addDestination calm yt_acc1
        (snd (configureRelay calm cfg_720p (initialize calm (module_load empty_storage)))))))
   = (configured [yt_acc1, li_acc1])
       \<lparr>storage := \<lparr>relay_config = Some cfg_720p,
                     stream_destinations = Some [yt_acc1, li_acc1],
                     stream_status = None\<rparr>,
        trace := [GetData ''relay_config'', GetData ''stream_destinations'',
                  GetData ''stream_status'', SaveData ''relay_config'',
                  SaveData ''stream_destinations'', SaveData ''stream_destinations'']\<rparr>"
  by (simp add: configured_def initialize_def module_load_def empty_storage_def
      configureRelay_def addDestination_def upsert_def same_identity_def saveData_def extern_def
      Let_def calm_def scripted_def yt_acc1_def li_acc1_def)

subsection \<open>Rejected starts\<close>

text \<open>
  Claim C8. \<open>startStream\<close> invoked on an inactive relay for which no \<open>RelayConfig\<close> has
  been set is rejected with the \<open>NotConfigured\<close> error ("Relay not configured. Call
  configureRelay first."); no external call is made (the trace is unchanged, so no
  platform start is attempted), and \<open>isActive\<close> is false afterwards.
\<close>

theorem startStream_not_configured:
  assumes "currentConfig s = None" and "\<not> isActive (currentStatus s)"
  shows "startStream E settings s =
           (Inl NotConfigured,
            s\<lparr>currentStatus := (currentStatus s)\<lparr>isActive := False,
                 error := Some ''Relay not configured. Call configureRelay first.''\<rparr>\<rparr>)
         \<and> trace (snd (startStream E settings s)) = trace s
         \<and> \<not> isActive (currentStatus (snd (startStream E settings s)))"
  using assms by (simp add: startStream_def start_rejected_def)

theorem startStream_not_configured_witness:
  "currentConfig (module_load empty_storage) = None
   \<and> \<not> isActive (currentStatus (module_load empty_storage))
   \<and> fst (startStream calm settings_T (module_load empty_storage)) = Inl NotConfigured
   \<and> trace (snd (startStream calm settings_T (module_load empty_storage))) = []
   \<and> \<not> isActive (currentStatus (snd (startStream calm settings_T (module_load empty_storage))))"
proof -
  have c: "currentConfig (module_load empty_storage) = None"
    by (simp add: module_load_def)
  have a: "\<not> isActive (currentStatus (module_load empty_storage))"
    by (simp add: module_load_def initialStatus_def)
  have t: "trace (module_load empty_storage) = []"
    by (simp add: module_load_def)
  from startStream_not_configured [OF c a, of calm settings_T] c a t show ?thesis
    by simp
qed

text \<open>
  Claim C10. When \<open>startStream\<close> on an inactive relay is rejected by a precondition check
  (no \<open>RelayConfig\<close> set, or the destination list empty), the top-level \<open>error\<close> of the
  aggregate status is overwritten with the (non-empty) rejection message while \<open>isActive\<close>
  stays false and nothing else changes; no external call is made. \<open>getRelayStatus\<close> then
  reports that error, so the status differs from the one before the call unless it already
  carried the same message.
\<close>

theorem startStream_rejection_overwrites_error:
  assumes "\<not> isActive (currentStatus s)"
    and "currentConfig s = None \<or> destinations s = []"
  shows "startStream E settings s =
           (Inl (rejection s),
            s\<lparr>currentStatus := (currentStatus s)\<lparr>isActive := False,
                 error := Some (message (rejection s))\<rparr>\<rparr>)
         \<and> error (getRelayStatus (snd (startStream E settings s))) = Some (message (rejection s))
         \<and> message (rejection s) \<noteq> []
         \<and> \<not> isActive (getRelayStatus (snd (startStream E settings s)))
         \<and> trace (snd (startStream E settings s)) = trace s
         \<and> (error (currentStatus s) \<noteq> Some (message (rejection s)) \<longrightarrow>
              getRelayStatus (snd (startStream E settings s)) \<noteq> getRelayStatus s)"
proof -
  have eq: "startStream E settings s =
           (Inl (rejection s),
            s\<lparr>currentStatus := (currentStatus s)\<lparr>isActive := False,
                 error := Some (message (rejection s))\<rparr>\<rparr>)"
    using assms by (auto simp add: startStream_def start_rejected_def rejection_def)
  have msg: "message (rejection s) \<noteq> []"
    by (simp add: rejection_def)
  have diff: "getRelayStatus (snd (startStream E settings s)) \<noteq> getRelayStatus s"
    if "error (currentStatus s) \<noteq> Some (message (rejection s))"
  proof
    assume "getRelayStatus (snd (startStream E settings s)) = getRelayStatus s"
    then have "error (getRelayStatus (snd (startStream E settings s))) = error (getRelayStatus s)"
      by simp
    with that show False
      by (simp add: eq getRelayStatus_def)
  qed
  from eq msg diff show ?thesis
    by (simp add: getRelayStatus_def)
qed

theorem startStream_rejection_overwrites_error_witness:
  "\<not> isActive (currentStatus (configured []))
   \<and> destinations (configured []) = []
   \<and> error (getRelayStatus (configured [])) = None
   \<and> fst (startStream calm settings_T (configured [])) = Inl NoDestinations
   \<and> error (getRelayStatus (snd (startStream calm settings_T (configured [])))) =
       Some ''No destinations configured. Add at least one destination.''
   \<and> \<not> isActive (getRelayStatus (snd (startStream calm settings_T (configured []))))
   \<and> getRelayStatus (snd (startStream calm settings_T (configured []))) \<noteq>
       getRelayStatus (configured [])"
proof -
  have a: "\<not> isActive (currentStatus (configured []))"
    by (simp add: configured_def initialStatus_def)
  have d: "currentConfig (configured []) = None \<or> destinations (configured []) = []"
    by (simp add: configured_def)
  have d': "destinations (configured []) = []"
    by (simp add: configured_def)
  have r: "rejection (configured []) = NoDestinations"
    by (simp add: rejection_def configured_def)
  have e: "error (currentStatus (configured [])) = None"
    by (simp add: configured_def initialStatus_def)
  have e': "error (getRelayStatus (configured [])) = None"
    using e by (simp add: getRelayStatus_def)
  note th = startStream_rejection_overwrites_error [OF a d, of calm settings_T, unfolded r]
  from th have f: "fst (startStream calm settings_T (configured [])) = Inl NoDestinations"
    by simp
  from th have m: "error (getRelayStatus (snd (startStream calm settings_T (configured [])))) =
       Some (message NoDestinations)"
    by blast
  from th have i: "\<not> isActive (getRelayStatus (snd (startStream calm settings_T (configured []))))"
    by blast
  from th have "error (currentStatus (configured [])) \<noteq> Some (message NoDestinations) \<longrightarrow>
     getRelayStatus (snd (startStream calm settings_T (configured []))) \<noteq>
       getRelayStatus (configured [])"
    by blast
  with e have n: "getRelayStatus (snd (startStream calm settings_T (configured []))) \<noteq>
       getRelayStatus (configured [])"
    by simp
  from a d' e' f m i n show ?thesis by simp
qed

text \<open>
  Claim C2, as stated, fails: the guard of \<open>startStream\<close> tests \<open>destinations.length === 0\<close>,
  the whole list, and the enabled destinations are filtered only after the status has been
  initialised. With one destination, disabled, on a configured relay the call is accepted
  and \<open>isActive\<close> becomes true.
\<close>

theorem startStream_all_disabled_counterexample:
  "\<not> isActive (currentStatus (configured [yt_acc1\<lparr>enabled := False\<rparr>]))
   \<and> currentConfig (configured [yt_acc1\<lparr>enabled := False\<rparr>]) = Some cfg_720p
   \<and> filter enabled (destinations (configured [yt_acc1\<lparr>enabled := False\<rparr>])) = []
   \<and> fst (startStream calm settings_T (configured [yt_acc1\<lparr>enabled := False\<rparr>])) = Inr ()
   \<and> isActive (currentStatus (snd (startStream calm settings_T
                                       (configured [yt_acc1\<lparr>enabled := False\<rparr>]))))"
  by (simp add: startStream_def configured_def initialStatus_def yt_acc1_def beginStream_def
      newDate_def saveData_def extern_def calm_def scripted_def Let_def)

text \<open>
  Claim C2, amended. On an inactive, configured relay \<open>startStream\<close> is rejected with the
  \<open>NoDestinations\<close> error exactly when the destination list itself is empty; in that case
  no external call is made (so no platform start is attempted) and \<open>isActive\<close> remains
  false.
\<close>

theorem startStream_no_destinations:
  assumes "\<not> isActive (currentStatus s)" and "currentConfig s \<noteq> None"
  shows "(fst (startStream E settings s) = Inl NoDestinations) = (destinations s = [])
         \<and> (destinations s = [] \<longrightarrow>
               startStream E settings s =
                 (Inl NoDestinations,
                  s\<lparr>currentStatus := (currentStatus s)\<lparr>isActive := False,
                       error := Some ''No destinations configured. Add at least one destination.''\<rparr>\<rparr>)
               \<and> trace (snd (startStream E settings s)) = trace s
               \<and> \<not> isActive (currentStatus (snd (startStream E settings s))))"
proof -
  have empty: "startStream E settings s =
                 (Inl NoDestinations,
                  s\<lparr>currentStatus := (currentStatus s)\<lparr>isActive := False,
                       error := Some ''No destinations configured. Add at least one destination.''\<rparr>\<rparr>)"
    if "destinations s = []"
    using assms that by (simp add: startStream_def start_rejected_def)
  have nonempty: "fst (startStream E settings s) \<noteq> Inl NoDestinations"
    if "destinations s \<noteq> []"
    using assms that
    by (simp add: startStream_def Let_def saveData_def extern_def start_rejected_def
        split: sum.splits)
  from empty nonempty show ?thesis
    by (cases "destinations s = []") simp_all
qed

theorem startStream_no_destinations_witness:
  "\<not> isActive (currentStatus (configured [])) \<and> currentConfig (configured []) \<noteq> None
   \<and> destinations (configured []) = []
   \<and> fst (startStream calm settings_T (configured [])) = Inl NoDestinations
   \<and> trace (snd (startStream calm settings_T (configured []))) = []
   \<and> \<not> isActive (currentStatus (snd (startStream calm settings_T (configured []))))"
proof -
  have a: "\<not> isActive (currentStatus (configured []))"
    by (simp add: configured_def initialStatus_def)
  have c: "currentConfig (configured []) \<noteq> None"
    by (simp add: configured_def)
  have d: "destinations (configured []) = []"
    by (simp add: configured_def)
  have t: "trace (configured []) = []"
    by (simp add: configured_def)
  note th = startStream_no_destinations [OF a c, of calm settings_T]
  from th d have f: "fst (startStream calm settings_T (configured [])) = Inl NoDestinations"
    by blast
  from th d have "trace (snd (startStream calm settings_T (configured []))) = trace (configured [])"
    by blast
  with t have tr: "trace (snd (startStream calm settings_T (configured []))) = []"
    by simp
  from th d have i: "\<not> isActive (currentStatus (snd (startStream calm settings_T (configured []))))"
    by blast
  from a c d f tr i show ?thesis by simp
qed

subsection \<open>The destination registry\<close>

text \<open>Facts about \<open>upsert\<close>, the list part of \<open>addDestination\<close>.\<close>

lemma upsert_Nil: "upsert d [] = [d]"
  by (simp add: upsert_def)

lemma upsert_Cons:
  "upsert d (x # xs) =
     (if same_identity (platform d) (accountId d) x then spread x d # xs else x # upsert d xs)"
  by (simp add: upsert_def split: option.splits)

lemma same_identity_spread:
  "same_identity (platform d) (accountId d) (spread x d)"
  by (simp add: same_identity_def spread_def)

lemma identity_spread: "identity (spread x d) = identity d"
  by (simp add: identity_def spread_def)

lemma same_identity_iff: "same_identity p a x = (identity x = (p, a))"
  by (auto simp add: same_identity_def identity_def)

lemma filter_same_absent:
  "(p, a) \<notin> set (map identity xs) \<Longrightarrow> filter (same_identity p a) xs = []"
  by (induction xs) (auto simp add: same_identity_iff)

lemma find_same_absent:
  "(p, a) \<notin> set (map identity xs) \<Longrightarrow> find (same_identity p a) xs = None"
  by (induction xs) (auto simp add: same_identity_iff)

lemma filter_same_upsert:
  "distinct (map identity ds) \<Longrightarrow>
   filter (same_identity (platform d) (accountId d)) (upsert d ds) =
     [case find (same_identity (platform d) (accountId d)) ds of
        None \<Rightarrow> d | Some e \<Rightarrow> spread e d]"
proof (induction ds)
  case Nil
  show ?case by (simp add: upsert_Nil same_identity_def)
next
  case (Cons x xs)
  show ?case
  proof (cases "same_identity (platform d) (accountId d) x")
    case True
    then have "identity x = (platform d, accountId d)"
      by (simp add: same_identity_iff)
    with Cons.prems have "(platform d, accountId d) \<notin> set (map identity xs)"
      by auto
    then have "filter (same_identity (platform d) (accountId d)) xs = []"
      by (rule filter_same_absent)
    with True show ?thesis
      by (simp add: upsert_Cons same_identity_spread)
  next
    case False
    with Cons show ?thesis
      by (simp add: upsert_Cons)
  qed
qed

lemma find_same_upsert:
  "find (same_identity (platform d) (accountId d)) (upsert d ds) =
     Some (case find (same_identity (platform d) (accountId d)) ds of
             None \<Rightarrow> d | Some e \<Rightarrow> spread e d)"
  by (induction ds) (simp_all add: upsert_Nil upsert_Cons same_identity_spread, simp add: same_identity_def)

lemma filter_others_upsert:
  "filter (\<lambda>x. \<not> same_identity (platform d) (accountId d) x) (upsert d ds) =
   filter (\<lambda>x. \<not> same_identity (platform d) (accountId d) x) ds"
  by (induction ds) (simp_all add: upsert_Nil upsert_Cons same_identity_spread, simp add: same_identity_def)

lemma upsert_fresh:
  "find (same_identity (platform d) (accountId d)) ds = None \<Longrightarrow> upsert d ds = ds @ [d]"
  by (induction ds) (simp_all add: upsert_Nil upsert_Cons split: if_splits)

lemma set_identity_upsert:
  "set (map identity (upsert d ds)) = insert (identity d) (set (map identity ds))"
proof (induction ds)
  case Nil
  show ?case by (simp add: upsert_Nil)
next
  case (Cons x xs)
  show ?case
  proof (cases "same_identity (platform d) (accountId d) x")
    case True
    then have "identity x = identity d"
      by (simp add: same_identity_iff identity_def)
    with True show ?thesis
      by (simp add: upsert_Cons identity_spread)
  next
    case False
    with Cons show ?thesis
      by (auto simp add: upsert_Cons)
  qed
qed

lemma distinct_upsert:
  "distinct (map identity ds) \<Longrightarrow> distinct (map identity (upsert d ds))"
proof (induction ds)
  case Nil
  show ?case by (simp add: upsert_Nil)
next
  case (Cons x xs)
  show ?case
  proof (cases "same_identity (platform d) (accountId d) x")
    case True
    then have "identity x = identity d"
      by (simp add: same_identity_iff identity_def)
    with True Cons.prems show ?thesis
      by (simp add: upsert_Cons identity_spread)
  next
    case False
    then have "identity x \<noteq> identity d"
      by (simp add: same_identity_iff identity_def)
    with False Cons show ?thesis
      using set_identity_upsert [of d xs] by (simp add: upsert_Cons)
  qed
qed

lemma destinations_addDestination:
  "destinations (snd (addDestination E d s)) = upsert d (destinations s)"
  by (simp add: addDestination_def saveData_def extern_def Let_def split: sum.splits)

lemma upsert_last:
  "find (same_identity (platform d2) (accountId d2)) xs = None \<Longrightarrow>
   same_identity (platform d2) (accountId d2) d \<Longrightarrow>
   upsert d2 (xs @ [d]) = xs @ [spread d d2]"
  by (induction xs) (simp_all add: upsert_Nil upsert_Cons split: if_splits)

text \<open>
  Claim C5, as stated, fails when the identity is already registered before the first of
  the two calls: \<open>addDestination(d)\<close> then merges \<open>d\<close> onto the existing record, so a field
  that \<open>d\<close> and \<open>d2\<close> both omit keeps the value of that older record and the result is not
  "the fields of \<open>d\<close> overwritten by those of \<open>d2\<close>". Here the registry holds a YouTube
  destination with a stream key, and both calls omit the key.
\<close>

theorem addDestination_twice_counterexample:
  "platform (yt_acc1\<lparr>enabled := False\<rparr>) = platform yt_acc1
   \<and> accountId (yt_acc1\<lparr>enabled := False\<rparr>) = accountId yt_acc1
   \<and> destinations (configured [yt_keyed]) =
       [\<lparr>platform = Youtube, accountId = ''acc1'', enabled = True,
         streamKey = Present ''k1'', rtmpUrl = Absent\<rparr>]
   \<and> streamKey yt_acc1 = Absent
   \<and> streamKey (yt_acc1\<lparr>enabled := False\<rparr>) = Absent
   \<and> destinations (snd (addDestination calm (yt_acc1\<lparr>enabled := False\<rparr>)
                           (snd (addDestination calm yt_acc1 (configured [yt_keyed])))))
       = [\<lparr>platform = Youtube, accountId = ''acc1'', enabled = False,
          streamKey = Present ''k1'', rtmpUrl = Absent\<rparr>]"
  by (simp add: addDestination_def saveData_def extern_def Let_def upsert_def
      same_identity_def spread_def configured_def yt_acc1_def yt_keyed_def calm_def scripted_def)

text \<open>
  Claim C5, amended. In a registry whose identities are pairwise distinct (which holds
  in every state of the module), for destinations \<open>d\<close> and \<open>d2\<close> with the same
  (platform, accountId), \<open>addDestination(d)\<close> followed by \<open>addDestination(d2)\<close> leaves
  exactly one record with that identity. Its \<open>enabled\<close> is that of \<open>d2\<close>. Its \<open>streamKey\<close> is
  the one provided in \<open>d2\<close>; when \<open>d2\<close> has no such property, the one provided in \<open>d\<close>; when
  neither has it, the one of the record that was registered under the identity before the
  two calls, if there was one; and the same for \<open>rtmpUrl\<close>. A property that is provided with
  the value \<open>undefined\<close> counts as provided: it overwrites, and so erases, the older value.
  All other records stay as they were, in their order; a destination with a new identity
  is appended at the end, and then the final record is \<open>d\<close> overwritten by \<open>d2\<close>. This holds
  whether or not the saves succeed.
\<close>

theorem addDestination_twice:
  assumes "distinct (map identity (destinations s))"
    and "platform d2 = platform d" and "accountId d2 = accountId d"
  shows "let ds = destinations s;
             same = (\<lambda>x. platform x = platform d \<and> accountId x = accountId d);
             over = (\<lambda>new old. case new of Absent \<Rightarrow> old | Undefined \<Rightarrow> Undefined
                                | Present v \<Rightarrow> Present v);
             stored_key = (case find same ds of None \<Rightarrow> Absent | Some e \<Rightarrow> streamKey e);
             stored_url = (case find same ds of None \<Rightarrow> Absent | Some e \<Rightarrow> rtmpUrl e);
             merged = \<lparr>platform = platform d, accountId = accountId d, enabled = enabled d2,
                       streamKey = over (streamKey d2) (over (streamKey d) stored_key),
                       rtmpUrl = over (rtmpUrl d2) (over (rtmpUrl d) stored_url)\<rparr>;
             final = destinations (snd (addDestination E2 d2 (snd (addDestination E1 d s))))
         in filter same final = [merged]
            \<and> filter (\<lambda>x. \<not> same x) final = filter (\<lambda>x. \<not> same x) ds
            \<and> distinct (map identity final)
            \<and> (find same ds = None \<longrightarrow>
                  destinations (snd (addDestination E1 d s)) = ds @ [d]
                  \<and> final = ds @ [merged])"
proof -
  let ?same = "same_identity (platform d) (accountId d)"
  let ?ds = "destinations s"
  let ?r1 = "case find ?same ?ds of None \<Rightarrow> d | Some e \<Rightarrow> spread e d"
  let ?final = "destinations (snd (addDestination E2 d2 (snd (addDestination E1 d s))))"
  let ?merged = "\<lparr>platform = platform d, accountId = accountId d, enabled = enabled d2,
      streamKey =
        (case streamKey d2 of
           Absent \<Rightarrow>
             (case streamKey d of
                Absent \<Rightarrow> (case find ?same ?ds of None \<Rightarrow> Absent | Some e \<Rightarrow> streamKey e)
              | Undefined \<Rightarrow> Undefined | Present v \<Rightarrow> Present v)
         | Undefined \<Rightarrow> Undefined | Present v \<Rightarrow> Present v),
      rtmpUrl =
        (case rtmpUrl d2 of
           Absent \<Rightarrow>
             (case rtmpUrl d of
                Absent \<Rightarrow> (case find ?same ?ds of None \<Rightarrow> Absent | Some e \<Rightarrow> rtmpUrl e)
              | Undefined \<Rightarrow> Undefined | Present v \<Rightarrow> Present v)
         | Undefined \<Rightarrow> Undefined | Present v \<Rightarrow> Present v)\<rparr>"
  have sameq: "(\<lambda>x. platform x = platform d \<and> accountId x = accountId d) = ?same"
    by (simp add: same_identity_def fun_eq_iff)
  have final: "?final = upsert d2 (upsert d ?ds)"
    by (simp add: destinations_addDestination)
  have same2: "same_identity (platform d2) (accountId d2) = ?same"
    using assms(2,3) by simp
  have d1: "distinct (map identity (upsert d ?ds))"
    using assms(1) by (rule distinct_upsert)
  have m: "spread ?r1 d2 = ?merged"
    using assms(2,3) by (simp add: spread_def split: option.splits js_prop.splits)
  have m': "find ?same ?ds = None \<Longrightarrow> spread d d2 = ?merged"
    using m by simp
  have a: "filter ?same ?final = [?merged]"
    using filter_same_upsert [OF d1, of d2] find_same_upsert [of d ?ds] m
    by (simp add: final same2)
  have c: "filter (\<lambda>x. \<not> ?same x) ?final = filter (\<lambda>x. \<not> ?same x) ?ds"
    using filter_others_upsert [of d2 "upsert d ?ds"] filter_others_upsert [of d ?ds]
    by (simp add: final same2)
  have e: "distinct (map identity ?final)"
    using d1 by (simp add: final distinct_upsert)
  have f: "destinations (snd (addDestination E1 d s)) = ?ds @ [d] \<and> ?final = ?ds @ [?merged]"
    if fresh: "find ?same ?ds = None"
  proof -
    have u1: "upsert d ?ds = ?ds @ [d]"
      using fresh by (rule upsert_fresh)
    have "upsert d2 (?ds @ [d]) = ?ds @ [spread d d2]"
      using fresh same2 upsert_last [of d2 ?ds d] by (simp add: same_identity_def)
    with u1 m' [OF fresh] show ?thesis
      by (simp add: final destinations_addDestination)
  qed
  from a c e f show ?thesis
    unfolding Let_def sameq by blast
qed

theorem addDestination_twice_witness:
  "distinct (map identity (destinations (configured [li_acc1])))
   \<and> platform (yt_acc1\<lparr>enabled := False\<rparr>) = platform yt_keyed
   \<and> accountId (yt_acc1\<lparr>enabled := False\<rparr>) = accountId yt_keyed
   \<and> find (\<lambda>x. platform x = platform yt_keyed \<and> accountId x = accountId yt_keyed)
         (destinations (configured [li_acc1])) = None
   \<and> streamKey yt_keyed = Present ''k1''
   \<and> streamKey (yt_acc1\<lparr>enabled := False\<rparr>) = Absent
   \<and> destinations (snd (addDestination calm (yt_acc1\<lparr>enabled := False\<rparr>)
                           (snd (addDestination calm yt_keyed (configured [li_acc1])))))
       = [li_acc1,
          \<lparr>platform = Youtube, accountId = ''acc1'', enabled = False,
           streamKey = Present ''k1'', rtmpUrl = Absent\<rparr>]
   \<and> destinations (snd (addDestination calm (yt_acc1\<lparr>enabled := False, streamKey := Undefined\<rparr>)
                           (snd (addDestination calm yt_keyed (configured [li_acc1])))))
       = [li_acc1,
          \<lparr>platform = Youtube, accountId = ''acc1'', enabled = False,
           streamKey = Undefined, rtmpUrl = Absent\<rparr>]"
proof -
  let ?same = "\<lambda>x. platform x = platform yt_keyed \<and> accountId x = accountId yt_keyed"
  have h1: "distinct (map identity (destinations (configured [li_acc1])))"
    by (simp add: configured_def)
  have h2: "platform (yt_acc1\<lparr>enabled := False\<rparr>) = platform yt_keyed"
    "platform (yt_acc1\<lparr>enabled := False, streamKey := Undefined\<rparr>) = platform yt_keyed"
    by (simp_all add: yt_acc1_def yt_keyed_def)
  have h3: "accountId (yt_acc1\<lparr>enabled := False\<rparr>) = accountId yt_keyed"
    "accountId (yt_acc1\<lparr>enabled := False, streamKey := Undefined\<rparr>) = accountId yt_keyed"
    by (simp_all add: yt_acc1_def yt_keyed_def)
  have h4: "find ?same (destinations (configured [li_acc1])) = None"
    by (simp add: configured_def li_acc1_def yt_keyed_def)
  have k: "streamKey yt_keyed = Present ''k1''" "streamKey (yt_acc1\<lparr>enabled := False\<rparr>) = Absent"
    by (simp_all add: yt_acc1_def yt_keyed_def)
  have ds: "destinations (configured [li_acc1]) = [li_acc1]"
    by (simp add: configured_def)
  note omitted = addDestination_twice [OF h1 h2(1) h3(1), of calm calm, unfolded Let_def]
  note erased = addDestination_twice [OF h1 h2(2) h3(2), of calm calm, unfolded Let_def]
  from omitted h4
  have "destinations (snd (addDestination calm (yt_acc1\<lparr>enabled := False\<rparr>)
                           (snd (addDestination calm yt_keyed (configured [li_acc1])))))
        = destinations (configured [li_acc1]) @
          [\<lparr>platform = platform yt_keyed, accountId = accountId yt_keyed,
            enabled = enabled (yt_acc1\<lparr>enabled := False\<rparr>),
            streamKey =
              (case streamKey (yt_acc1\<lparr>enabled := False\<rparr>) of
                 Absent \<Rightarrow>
                   (case streamKey yt_keyed of
                      Absent \<Rightarrow> (case find ?same (destinations (configured [li_acc1])) of
                                   None \<Rightarrow> Absent | Some e \<Rightarrow> streamKey e)
                    | Undefined \<Rightarrow> Undefined | Present v \<Rightarrow> Present v)
               | Undefined \<Rightarrow> Undefined | Present v \<Rightarrow> Present v),
            rtmpUrl =
              (case rtmpUrl (yt_acc1\<lparr>enabled := False\<rparr>) of
                 Absent \<Rightarrow>
                   (case rtmpUrl yt_keyed of
                      Absent \<Rightarrow> (case find ?same (destinations (configured [li_acc1])) of
                                   None \<Rightarrow> Absent | Some e \<Rightarrow> rtmpUrl e)
                    | Undefined \<Rightarrow> Undefined | Present v \<Rightarrow> Present v)
               | Undefined \<Rightarrow> Undefined | Present v \<Rightarrow> Present v)\<rparr>]"
    by blast
  then have v1: "destinations (snd (addDestination calm (yt_acc1\<lparr>enabled := False\<rparr>)
                           (snd (addDestination calm yt_keyed (configured [li_acc1])))))
       = [li_acc1,
          \<lparr>platform = Youtube, accountId = ''acc1'', enabled = False,
           streamKey = Present ''k1'', rtmpUrl = Absent\<rparr>]"
    by (simp only: h4 option.case) (simp add: ds yt_acc1_def yt_keyed_def)
  from erased h4
  have "destinations (snd (addDestination calm (yt_acc1\<lparr>enabled := False, streamKey := Undefined\<rparr>)
                           (snd (addDestination calm yt_keyed (configured [li_acc1])))))
        = destinations (configured [li_acc1]) @
          [\<lparr>platform = platform yt_keyed, accountId = accountId yt_keyed,
            enabled = enabled (yt_acc1\<lparr>enabled := False, streamKey := Undefined\<rparr>),
            streamKey =
              (case streamKey (yt_acc1\<lparr>enabled := False, streamKey := Undefined\<rparr>) of
                 Absent \<Rightarrow>
                   (case streamKey yt_keyed of
                      Absent \<Rightarrow> (case find ?same (destinations (configured [li_acc1])) of
                                   None \<Rightarrow> Absent | Some e \<Rightarrow> streamKey e)
                    | Undefined \<Rightarrow> Undefined | Present v \<Rightarrow> Present v)
               | Undefined \<Rightarrow> Undefined | Present v \<Rightarrow> Present v),
            rtmpUrl =
              (case rtmpUrl (yt_acc1\<lparr>enabled := False, streamKey := Undefined\<rparr>) of
                 Absent \<Rightarrow>
                   (case rtmpUrl yt_keyed of
                      Absent \<Rightarrow> (case find ?same (destinations (configured [li_acc1])) of
                                   None \<Rightarrow> Absent | Some e \<Rightarrow> rtmpUrl e)
                    | Undefined \<Rightarrow> Undefined | Present v \<Rightarrow> Present v)
               | Undefined \<Rightarrow> Undefined | Present v \<Rightarrow> Present v)\<rparr>]"
    by blast
  then have v2: "destinations (snd (addDestination calm (yt_acc1\<lparr>enabled := False, streamKey := Undefined\<rparr>)
                           (snd (addDestination calm yt_keyed (configured [li_acc1])))))
       = [li_acc1,
          \<lparr>platform = Youtube, accountId = ''acc1'', enabled = False,
           streamKey = Undefined, rtmpUrl = Absent\<rparr>]"
    by (simp only: h4 option.case) (simp add: ds yt_acc1_def yt_keyed_def)
  from v1 v2 h1 h2 h3 h4 k show ?thesis
    by simp
qed

subsection \<open>Starting one destination\<close>

text \<open>What the start sequence of one destination changes: the trace and the slot of its
  platform, and nothing else.\<close>

lemmas start_defs = startPlatform_def startYouTubeStream_def startLinkedInStream_def extern_def
  newDate_def start_caught_def set_platform_def

lemma startPlatform_outer:
  "(snd (startPlatform E st d s))\<lparr>trace := tr, currentStatus := cs\<rparr> =
     s\<lparr>trace := tr, currentStatus := cs\<rparr>"
  by (simp add: start_defs split: sum.splits prod.splits)

lemma startPlatform_status:
  "(currentStatus (snd (startPlatform E st d s)))\<lparr>platforms := ps\<rparr> =
     (currentStatus s)\<lparr>platforms := ps\<rparr>"
  by (simp add: start_defs split: sum.splits prod.splits)

lemma startPlatform_other:
  "q \<noteq> platform d \<Longrightarrow>
   platform_entry (platforms (currentStatus (snd (startPlatform E st d s)))) q =
     platform_entry (platforms (currentStatus s)) q"
  by (cases q; cases "platform d")
     (simp_all add: start_defs split: sum.splits prod.splits)

text \<open>The slot of the destination's own platform: a failed start leaves the entry
  \<open>{isStreaming: false, error}\<close> whose error is the message thrown by the last call made, a
  call on the client of the destination; a successful start leaves the entry with the id
  that the first call of the sequence returned and the time read at its end.\<close>

lemma startPlatform_failed_fields:
  "fst (startPlatform E st d s) = Inl e \<Longrightarrow>
   platform_entry (platforms (currentStatus (snd (startPlatform E st d s)))) (platform d) =
     Some \<lparr>isStreaming = False, streamId = None, viewerCount = None, p_startedAt = None,
            p_error = Some (message e)\<rparr>
   \<and> e = External (message e)
   \<and> outcome E (butlast (trace (snd (startPlatform E st d s))))
         (last (trace (snd (startPlatform E st d s)))) = Inl (message e)
   \<and> call_target (last (trace (snd (startPlatform E st d s)))) = Some (platform d, accountId d)"
  by (cases "platform d")
     (auto simp add: start_defs failed_entry_def butlast_append split: sum.splits prod.splits)

lemma startPlatform_live_fields:
  "fst (startPlatform E st d s) = Inr u \<Longrightarrow>
   \<exists>sid. outcome E (trace s) (first_call st d) = Inr sid
     \<and> platform_entry (platforms (currentStatus (snd (startPlatform E st d s)))) (platform d) =
         Some \<lparr>isStreaming = True, streamId = Some sid, viewerCount = None,
                p_startedAt = Some (clock E (butlast (trace (snd (startPlatform E st d s))))),
                p_error = None\<rparr>"
  by (cases "platform d")
     (auto simp add: start_defs live_entry_def first_call_def butlast_append split: sum.splits prod.splits)

lemma startPlatform_trace:
  "runs_on s (snd (startPlatform E st d s))
   \<and> new_calls s (snd (startPlatform E st d s)) \<noteq> []
   \<and> hd (new_calls s (snd (startPlatform E st d s))) = first_call st d
   \<and> (\<forall>c\<in>set (new_calls s (snd (startPlatform E st d s))). call_for d c)"
  by (cases "platform d")
     (simp_all add: start_defs runs_on_def new_calls_def first_call_def call_for_def
        split: sum.splits prod.splits)

lemma startDestination_eq:
  "startDestination E st d s = snd (startPlatform E st d s)"
  by (cases "platform d")
     (auto simp add: startDestination_def start_defs split: sum.splits prod.splits)

subsection \<open>The fan-out of \<open>startStream\<close>\<close>

lemma fold_start_outer:
  "(fold (startDestination E st) ds s)\<lparr>trace := tr, currentStatus := cs\<rparr> =
     s\<lparr>trace := tr, currentStatus := cs\<rparr>"
proof (induction ds arbitrary: s)
  case Nil
  show ?case by simp
next
  case (Cons d ds)
  have "(fold (startDestination E st) (d # ds) s)\<lparr>trace := tr, currentStatus := cs\<rparr> =
        (startDestination E st d s)\<lparr>trace := tr, currentStatus := cs\<rparr>"
    using Cons.IH [of "startDestination E st d s"] by simp
  also have "\<dots> = s\<lparr>trace := tr, currentStatus := cs\<rparr>"
    by (simp add: startDestination_eq startPlatform_outer)
  finally show ?case .
qed

lemma fold_start_status:
  "(currentStatus (fold (startDestination E st) ds s))\<lparr>platforms := ps\<rparr> =
     (currentStatus s)\<lparr>platforms := ps\<rparr>"
proof (induction ds arbitrary: s)
  case Nil
  show ?case by simp
next
  case (Cons d ds)
  have "(currentStatus (fold (startDestination E st) (d # ds) s))\<lparr>platforms := ps\<rparr> =
        (currentStatus (startDestination E st d s))\<lparr>platforms := ps\<rparr>"
    using Cons.IH [of "startDestination E st d s"] by simp
  also have "\<dots> = (currentStatus s)\<lparr>platforms := ps\<rparr>"
    by (simp add: startDestination_eq startPlatform_status)
  finally show ?case .
qed

lemma fold_start_other:
  "\<forall>x\<in>set ds. platform x \<noteq> q \<Longrightarrow>
   platform_entry (platforms (currentStatus (fold (startDestination E st) ds s))) q =
     platform_entry (platforms (currentStatus s)) q"
proof (induction ds arbitrary: s)
  case Nil
  show ?case by simp
next
  case (Cons d ds)
  from Cons.prems have "q \<noteq> platform d" and rest: "\<forall>x\<in>set ds. platform x \<noteq> q"
    by auto
  then show ?case
    using Cons.IH [OF rest, of "startDestination E st d s"]
    by (simp add: startDestination_eq startPlatform_other)
qed

lemma beginStream_destinations: "destinations (beginStream E s) = destinations s"
  by (simp add: beginStream_def newDate_def)

lemma startStream_accepted_platforms:
  assumes "\<not> isActive (currentStatus s)" and "currentConfig s \<noteq> None"
    and "destinations s \<noteq> []"
  shows "platforms (currentStatus (snd (startStream E st s))) =
         platforms (currentStatus (fold (startDestination E st) (filter enabled (destinations s))
                                     (beginStream E s)))"
proof -
  from assms(2) obtain c where "currentConfig s = Some c"
    by auto
  with assms(1,3) show ?thesis
    by (simp add: startStream_def Let_def saveData_def extern_def start_rejected_def
        beginStream_destinations split: sum.splits)
qed

text \<open>
  Claim C9. The aggregate status has one slot per platform (the record \<open>Platforms\<close>),
  keyed by the platform alone. For every accepted start call whose enabled destinations
  contain two destinations \<open>d1\<close>, \<open>d2\<close> of the same platform (\<open>d2\<close> the last one of that
  platform), the outcome of \<open>d1\<close> is written into the slot of the platform when \<open>d1\<close> is
  processed: \<open>{isStreaming: false, error: message}\<close> if its start sequence threw,
  \<open>{isStreaming: true, streamId, startedAt}\<close> with the id returned to \<open>d1\<close> and the time
  read for \<open>d1\<close> if it succeeded. The outcome of \<open>d2\<close> is written into the same slot later,
  and at the end of \<open>startStream\<close> the slot holds exactly the entry of \<open>d2\<close>, whatever the
  outcome of \<open>d1\<close> was: if the start of \<open>d2\<close> threw, \<open>isStreaming\<close> is false and \<open>error\<close> is
  the message thrown by the failing call on the client of \<open>d2\<close>; if it succeeded,
  \<open>isStreaming\<close> is true, \<open>streamId\<close> is the id returned by the first call on the client of
  \<open>d2\<close>, and \<open>startedAt\<close> is the time read at the end of the start sequence of \<open>d2\<close>.
\<close>

theorem startStream_one_slot_per_platform:
  assumes "\<not> isActive (currentStatus s)" and "currentConfig s \<noteq> None"
    and "filter enabled (destinations s) = pre @ d1 # mid @ d2 # post"
    and "platform d1 = platform d2"
    and "\<forall>x\<in>set post. platform x \<noteq> platform d2"
  shows "let s1 = fold (startDestination E st) pre (beginStream E s);
             r1 = startPlatform E st d1 s1;
             s2 = fold (startDestination E st) (pre @ d1 # mid) (beginStream E s);
             r2 = startPlatform E st d2 s2;
             slot = platform_entry (platforms (currentStatus (snd (startStream E st s))))
                      (platform d2)
         in (\<forall>e. fst r1 = Inl e \<longrightarrow>
               platform_entry (platforms (currentStatus (snd r1))) (platform d2) =
                 Some \<lparr>isStreaming = False, streamId = None, viewerCount = None,
                        p_startedAt = None, p_error = Some (message e)\<rparr>)
          \<and> (fst r1 = Inr () \<longrightarrow>
               (\<exists>sid. outcome E (trace s1) (first_call st d1) = Inr sid
                  \<and> platform_entry (platforms (currentStatus (snd r1))) (platform d2) =
                      Some \<lparr>isStreaming = True, streamId = Some sid, viewerCount = None,
                             p_startedAt = Some (clock E (butlast (trace (snd r1)))),
                             p_error = None\<rparr>))
          \<and> (\<forall>e. fst r2 = Inl e \<longrightarrow>
               slot = Some \<lparr>isStreaming = False, streamId = None, viewerCount = None,
                             p_startedAt = None, p_error = Some (message e)\<rparr>
               \<and> e = External (message e)
               \<and> outcome E (butlast (trace (snd r2))) (last (trace (snd r2))) = Inl (message e)
               \<and> call_target (last (trace (snd r2))) = Some (platform d2, accountId d2))
          \<and> (fst r2 = Inr () \<longrightarrow>
               (\<exists>sid. outcome E (trace s2) (first_call st d2) = Inr sid
                  \<and> slot = Some \<lparr>isStreaming = True, streamId = Some sid, viewerCount = None,
                                    p_startedAt = Some (clock E (butlast (trace (snd r2)))),
                                    p_error = None\<rparr>))"
proof -
  let ?f = "startDestination E st"
  let ?s1 = "fold ?f pre (beginStream E s)"
  let ?r1 = "startPlatform E st d1 ?s1"
  let ?s2 = "fold ?f (pre @ d1 # mid) (beginStream E s)"
  let ?r2 = "startPlatform E st d2 ?s2"
  let ?slot = "platform_entry (platforms (currentStatus (snd (startStream E st s)))) (platform d2)"
  from assms(3) have ne: "destinations s \<noteq> []"
    by auto
  have "fold ?f (pre @ d1 # mid @ d2 # post) (beginStream E s) = fold ?f post (snd ?r2)"
    by (simp add: startDestination_eq)
  then have "?slot = platform_entry (platforms (currentStatus (fold ?f post (snd ?r2)))) (platform d2)"
    using startStream_accepted_platforms [OF assms(1,2) ne, of E st] assms(3) by simp
  also have "\<dots> = platform_entry (platforms (currentStatus (snd ?r2))) (platform d2)"
    using assms(5) by (rule fold_start_other)
  finally have slot: "?slot = platform_entry (platforms (currentStatus (snd ?r2))) (platform d2)" .
  have a: "\<forall>e. fst ?r1 = Inl e \<longrightarrow>
             platform_entry (platforms (currentStatus (snd ?r1))) (platform d2) =
               Some \<lparr>isStreaming = False, streamId = None, viewerCount = None,
                      p_startedAt = None, p_error = Some (message e)\<rparr>"
    using startPlatform_failed_fields [of E st d1 ?s1] assms(4) by simp
  have b: "fst ?r1 = Inr () \<longrightarrow>
             (\<exists>sid. outcome E (trace ?s1) (first_call st d1) = Inr sid
                \<and> platform_entry (platforms (currentStatus (snd ?r1))) (platform d2) =
                    Some \<lparr>isStreaming = True, streamId = Some sid, viewerCount = None,
                           p_startedAt = Some (clock E (butlast (trace (snd ?r1)))),
                           p_error = None\<rparr>)"
    using startPlatform_live_fields [of E st d1 ?s1 "()"] assms(4) by simp
  have c: "\<forall>e. fst ?r2 = Inl e \<longrightarrow>
             ?slot = Some \<lparr>isStreaming = False, streamId = None, viewerCount = None,
                            p_startedAt = None, p_error = Some (message e)\<rparr>
             \<and> e = External (message e)
             \<and> outcome E (butlast (trace (snd ?r2))) (last (trace (snd ?r2))) = Inl (message e)
             \<and> call_target (last (trace (snd ?r2))) = Some (platform d2, accountId d2)"
    using startPlatform_failed_fields [of E st d2 ?s2] slot by simp
  have d: "fst ?r2 = Inr () \<longrightarrow>
             (\<exists>sid. outcome E (trace ?s2) (first_call st d2) = Inr sid
                \<and> ?slot = Some \<lparr>isStreaming = True, streamId = Some sid, viewerCount = None,
                                   p_startedAt = Some (clock E (butlast (trace (snd ?r2)))),
                                   p_error = None\<rparr>)"
    using startPlatform_live_fields [of E st d2 ?s2 "()"] slot by simp
  from a b c d show ?thesis
    by (simp add: Let_def)
qed

theorem startStream_one_slot_per_platform_witness:
  "\<not> isActive (currentStatus (configured [yt_acc1, yt_acc2]))
   \<and> currentConfig (configured [yt_acc1, yt_acc2]) \<noteq> None
   \<and> filter enabled (destinations (configured [yt_acc1, yt_acc2])) = [] @ yt_acc1 # [] @ yt_acc2 # []
   \<and> platform yt_acc1 = platform yt_acc2
   \<and> accountId yt_acc1 \<noteq> accountId yt_acc2
   \<and> fst (startPlatform by_account settings_T yt_acc1
             (beginStream by_account (configured [yt_acc1, yt_acc2]))) = Inr ()
   \<and> youtube (platforms (currentStatus (snd (startPlatform by_account settings_T yt_acc1
             (beginStream by_account (configured [yt_acc1, yt_acc2]))))))
       = Some \<lparr>isStreaming = True, streamId = Some ''yt-acc1'', viewerCount = None,
                p_startedAt = Some 5000, p_error = None\<rparr>
   \<and> fst (startPlatform by_account settings_T yt_acc2
             (fold (startDestination by_account settings_T) [yt_acc1]
                (beginStream by_account (configured [yt_acc1, yt_acc2])))) = Inr ()
   \<and> youtube (platforms (currentStatus (snd
         (startStream by_account settings_T (configured [yt_acc1, yt_acc2])))))
       = Some \<lparr>isStreaming = True, streamId = Some ''yt-acc2'', viewerCount = None,
                p_startedAt = Some 10000, p_error = None\<rparr>
   \<and> fst (startPlatform (account_down Youtube ''acc2'' ''quota exceeded'') settings_T yt_acc1
             (beginStream (account_down Youtube ''acc2'' ''quota exceeded'')
                (configured [yt_acc1, yt_acc2]))) = Inr ()
   \<and> fst (startPlatform (account_down Youtube ''acc2'' ''quota exceeded'') settings_T yt_acc2
             (fold (startDestination (account_down Youtube ''acc2'' ''quota exceeded'') settings_T)
                [yt_acc1]
                (beginStream (account_down Youtube ''acc2'' ''quota exceeded'')
                   (configured [yt_acc1, yt_acc2])))) = Inl (External ''quota exceeded'')
   \<and> youtube (platforms (currentStatus (snd
         (startStream (account_down Youtube ''acc2'' ''quota exceeded'') settings_T
            (configured [yt_acc1, yt_acc2])))))
       = Some \<lparr>isStreaming = False, streamId = None, viewerCount = None,
                p_startedAt = None, p_error = Some ''quota exceeded''\<rparr>"
proof -
  let ?E = "account_down Youtube ''acc2'' ''quota exceeded''"
  let ?B = "by_account"
  let ?s = "configured [yt_acc1, yt_acc2]"
  have h1: "\<not> isActive (currentStatus ?s)"
    by (simp add: configured_def initialStatus_def)
  have h2: "currentConfig ?s \<noteq> None"
    by (simp add: configured_def)
  have h3: "filter enabled (destinations ?s) = [] @ yt_acc1 # [] @ yt_acc2 # []"
    by (simp add: configured_def yt_acc1_def yt_acc2_def)
  have h4: "platform yt_acc1 = platform yt_acc2"
    by (simp add: yt_acc1_def yt_acc2_def)
  have h5: "\<forall>x\<in>set []. platform x \<noteq> platform yt_acc2"
    by simp
  have h6: "accountId yt_acc1 \<noteq> accountId yt_acc2"
    by (simp add: yt_acc1_def yt_acc2_def)
  have p: "platform yt_acc2 = Youtube" "accountId yt_acc2 = ''acc2''"
    by (simp_all add: yt_acc2_def)
  have r1: "fst (startPlatform ?E settings_T yt_acc1 (beginStream ?E ?s)) = Inr ()"
    by (simp add: start_defs account_down_def scripted_def beginStream_def yt_acc1_def)
  have r2: "fst (startPlatform ?E settings_T yt_acc2
                   (fold (startDestination ?E settings_T) ([] @ yt_acc1 # []) (beginStream ?E ?s)))
            = Inl (External ''quota exceeded'')"
    by (simp add: startDestination_eq)
       (simp add: start_defs account_down_def scripted_def yt_acc2_def)
  have b1: "fst (startPlatform ?B settings_T yt_acc1 (beginStream ?B ?s)) = Inr ()"
    by (simp add: start_defs by_account_def beginStream_def yt_acc1_def)
  have e1: "youtube (platforms (currentStatus (snd (startPlatform ?B settings_T yt_acc1
              (beginStream ?B ?s))))) =
            Some \<lparr>isStreaming = True, streamId = Some ''yt-acc1'', viewerCount = None,
                   p_startedAt = Some 5000, p_error = None\<rparr>"
    by (simp add: start_defs by_account_def beginStream_def yt_acc1_def live_entry_def
        configured_def)
  define sa where
    "sa = fold (startDestination ?B settings_T) ([] @ yt_acc1 # []) (beginStream ?B ?s)"
  have sa: "sa = snd (startPlatform ?B settings_T yt_acc1 (beginStream ?B ?s))"
    by (simp add: sa_def startDestination_eq)
  have len: "length (trace sa) = 6" and cf: "currentConfig sa = Some cfg_720p"
    by (simp_all add: sa start_defs by_account_def yt_acc1_def beginStream_def configured_def)
  have b2': "fst (startPlatform ?B settings_T yt_acc2 sa) = Inr ()"
    by (simp add: start_defs by_account_def yt_acc2_def)
  have tr2: "trace (snd (startPlatform ?B settings_T yt_acc2 sa))
             = trace sa
               @ [YtCreateBroadcast ''acc2'' settings_T,
                  YtCreateStream ''acc2'' ''T'' ''720p'' 30,
                  YtBindStreamToBroadcast ''acc2'' ''yt-acc2'' ''yt-acc2'',
                  YtStartBroadcast ''acc2'' ''yt-acc2'', NewDate]"
    using cf
    by (simp add: start_defs by_account_def yt_acc2_def
          config_resolution_def config_frameRate_def cfg_720p_def settings_T_def)
  have cdef: "clock ?B tr = 1000 * int (length tr)" for tr
    by (simp add: by_account_def)
  have ck: "clock ?B (butlast (trace (snd (startPlatform ?B settings_T yt_acc2 sa)))) = 10000"
    by (simp add: tr2 butlast_append cdef len)
  have fc: "first_call settings_T yt_acc2 = YtCreateBroadcast ''acc2'' settings_T"
    by (simp add: first_call_def yt_acc2_def)
  have oc: "outcome ?B tr (YtCreateBroadcast ''acc2'' settings_T) = Inr ''yt-acc2''" for tr
    by (simp add: by_account_def)
  note fail = startStream_one_slot_per_platform [OF h1 h2 h3 h4 h5, of ?E settings_T]
  note both = startStream_one_slot_per_platform [OF h1 h2 h3 h4 h5, of ?B settings_T,
      unfolded Let_def, folded sa_def]
  have b2: "fst (startPlatform ?B settings_T yt_acc2
                   (fold (startDestination ?B settings_T) [yt_acc1] (beginStream ?B ?s))) = Inr ()"
    using b2' by (simp add: sa_def)
  from fail r2 have f:
    "platform_entry (platforms (currentStatus (snd (startStream ?E settings_T ?s))))
       (platform yt_acc2) =
     Some \<lparr>isStreaming = False, streamId = None, viewerCount = None, p_startedAt = None,
            p_error = Some (message (External ''quota exceeded''))\<rparr>"
    unfolding Let_def by blast
  from both b2' obtain sid where
    "outcome ?B (trace sa) (first_call settings_T yt_acc2) = Inr sid"
    and sl: "platform_entry (platforms (currentStatus (snd (startStream ?B settings_T ?s))))
       (platform yt_acc2) =
     Some \<lparr>isStreaming = True, streamId = Some sid, viewerCount = None,
            p_startedAt = Some (clock ?B (butlast (trace (snd (startPlatform ?B settings_T yt_acc2 sa))))),
            p_error = None\<rparr>"
    by blast
  then have "sid = ''yt-acc2''"
    by (simp add: fc oc)
  with sl ck p have g:
    "youtube (platforms (currentStatus (snd (startStream ?B settings_T ?s)))) =
     Some \<lparr>isStreaming = True, streamId = Some ''yt-acc2'', viewerCount = None,
            p_startedAt = Some 10000, p_error = None\<rparr>"
    by simp
  from h1 h2 h3 h4 h6 r1 r2 b1 e1 b2 f g p show ?thesis
    by simp
qed

lemma fold_start_isActive:
  "isActive (currentStatus (fold (startDestination E st) ds s)) = isActive (currentStatus s)"
proof -
  have "isActive ((currentStatus (fold (startDestination E st) ds s))\<lparr>platforms := no_platforms\<rparr>) =
        isActive ((currentStatus s)\<lparr>platforms := no_platforms\<rparr>)"
    by (simp only: fold_start_status)
  then show ?thesis by simp
qed

lemma beginStream_facts:
  "trace (beginStream E s) = trace s @ [NewDate]"
  "isActive (currentStatus (beginStream E s))"
  "platforms (currentStatus (beginStream E s)) = no_platforms"
  by (simp_all add: beginStream_def newDate_def)

lemma startStream_accepted_trace:
  assumes "\<not> isActive (currentStatus s)" and "currentConfig s \<noteq> None"
    and "destinations s \<noteq> []"
  shows "trace (snd (startStream E st s)) =
         trace (fold (startDestination E st) (filter enabled (destinations s)) (beginStream E s))
           @ [MathRandom, SaveData ''stream_status'']"
proof -
  from assms(2) obtain c where "currentConfig s = Some c"
    by auto
  with assms(1,3) show ?thesis
    by (simp add: startStream_def Let_def saveData_def extern_def start_rejected_def
        beginStream_destinations split: sum.splits)
qed

lemma startStream_accepted_saved:
  assumes "\<not> isActive (currentStatus s)" and "currentConfig s \<noteq> None"
    and "destinations s \<noteq> []"
    and "outcome E (trace (fold (startDestination E st) (filter enabled (destinations s))
                            (beginStream E s)) @ [MathRandom])
           (SaveData ''stream_status'') = Inr x"
  shows "fst (startStream E st s) = Inr ()
         \<and> isActive (currentStatus (snd (startStream E st s)))
         \<and> stream_status (storage (snd (startStream E st s))) =
             Some (currentStatus (snd (startStream E st s)))"
proof -
  from assms(2) obtain c where "currentConfig s = Some c"
    by auto
  with assms(1,3,4) show ?thesis
    by (simp add: startStream_def Let_def saveData_def extern_def start_rejected_def
        beginStream_destinations fold_start_isActive beginStream_facts split: sum.splits)
qed

lemma startStream_accepted_save_failed:
  assumes "\<not> isActive (currentStatus s)" and "currentConfig s \<noteq> None"
    and "destinations s \<noteq> []"
    and "outcome E (trace (fold (startDestination E st) (filter enabled (destinations s))
                            (beginStream E s)) @ [MathRandom])
           (SaveData ''stream_status'') = Inl m"
  shows "fst (startStream E st s) = Inl (External m)
         \<and> \<not> isActive (currentStatus (snd (startStream E st s)))
         \<and> error (currentStatus (snd (startStream E st s))) = Some m
         \<and> storage (snd (startStream E st s)) = storage s"
proof -
  from assms(2) obtain c where "currentConfig s = Some c"
    by auto
  have "storage ((fold (startDestination E st) (filter enabled (destinations s)) (beginStream E s))
          \<lparr>trace := [], currentStatus := initialStatus\<rparr>) =
        storage ((beginStream E s)\<lparr>trace := [], currentStatus := initialStatus\<rparr>)"
    by (simp only: fold_start_outer)
  then have st: "storage (fold (startDestination E st) (filter enabled (destinations s)) (beginStream E s))
               = storage s"
    by (simp add: beginStream_def newDate_def)
  from \<open>currentConfig s = Some c\<close> assms(1,3,4) st show ?thesis
    by (simp add: startStream_def Let_def saveData_def extern_def start_rejected_def
        beginStream_destinations split: sum.splits)
qed

text \<open>
  Claim C1, as stated, fails in two ways, both with YouTube and LinkedIn enabled and
  exactly one of the two start sequences failing. First, \<open>startStream\<close> ends with
  \<open>saveData("stream_status", \<dots>)\<close> inside the outer \<open>try\<close>: when LinkedIn fails and the save
  throws as well, the call is rejected and the outer \<open>catch\<close> resets \<open>isActive\<close> to false.
  Second, the error recorded for the failing platform is the message of the thrown error
  as it is (\<open>error.message\<close>): when the YouTube client throws an error whose message is the
  empty string (\<open>YouTubeApiException\<close> passes on the \<open>message\<close> of the response body), the
  recorded \<open>error\<close> is empty.
\<close>

theorem startStream_partial_failure_counterexample:
  "filter enabled (destinations (configured [yt_acc1, li_acc1])) = [yt_acc1, li_acc1]
   \<and> fst (startPlatform (account_and_store_down Linkedin ''acc1'' ''unavailable'') settings_T yt_acc1
             (beginStream (account_and_store_down Linkedin ''acc1'' ''unavailable'')
                (configured [yt_acc1, li_acc1]))) = Inr ()
   \<and> fst (startPlatform (account_and_store_down Linkedin ''acc1'' ''unavailable'') settings_T li_acc1
             (snd (startPlatform (account_and_store_down Linkedin ''acc1'' ''unavailable'') settings_T
                     yt_acc1
                     (beginStream (account_and_store_down Linkedin ''acc1'' ''unavailable'')
                        (configured [yt_acc1, li_acc1])))))
       = Inl (External ''unavailable'')
   \<and> fst (startStream (account_and_store_down Linkedin ''acc1'' ''unavailable'') settings_T
             (configured [yt_acc1, li_acc1])) = Inl (External ''unavailable'')
   \<and> \<not> isActive (currentStatus (snd (startStream
             (account_and_store_down Linkedin ''acc1'' ''unavailable'') settings_T
             (configured [yt_acc1, li_acc1]))))
   \<and> fst (startStream (account_down Youtube ''acc1'' []) settings_T
             (configured [yt_acc1, li_acc1])) = Inr ()
   \<and> youtube (platforms (currentStatus (snd (startStream (account_down Youtube ''acc1'' [])
             settings_T (configured [yt_acc1, li_acc1])))))
       = Some \<lparr>isStreaming = False, streamId = None, viewerCount = None, p_startedAt = None,
               p_error = Some []\<rparr>
   \<and> streaming (linkedin (platforms (currentStatus (snd (startStream
             (account_down Youtube ''acc1'' []) settings_T (configured [yt_acc1, li_acc1]))))))"
  by (simp add: startStream_def startDestination_def start_defs beginStream_def saveData_def
      start_rejected_def Let_def configured_def initialStatus_def no_platforms_def
      account_and_store_down_def account_down_def scripted_def yt_acc1_def li_acc1_def
      failed_entry_def live_entry_def)

text \<open>
  Claim C1, amended. For every accepted start call with two enabled destinations \<open>d1\<close>,
  \<open>d2\<close> on different platforms, where the start sequence of one succeeds and that of the
  other fails with error \<open>e\<close>: the destinations are processed one after the other in
  registry order (the trace is the clock reading of the status initialisation, then the
  calls for \<open>d1\<close>, beginning with its first client call, then the calls for \<open>d2\<close>, beginning
  with its first client call, then \<open>Math.random\<close> and the save of the status), so the
  failure of one does not abort the attempt of the other. The failing platform's entry is
  \<open>{isStreaming: false, error}\<close> and nothing else, \<open>error\<close> being the message thrown by the
  last call of its start sequence, a call on the client of that destination (so \<open>error\<close> is
  non-empty whenever that message is). The succeeding platform's entry is
  \<open>{isStreaming: true, streamId, startedAt}\<close> and nothing else, with the id returned by the
  first call on the client of that destination and the time read at the end of its start
  sequence. When the final save of the status succeeds, the call completes without error,
  \<open>isActive\<close> is true and the stored status is the current one.
\<close>

theorem startStream_partial_failure:
  assumes "\<not> isActive (currentStatus s)" and "currentConfig s \<noteq> None"
    and "filter enabled (destinations s) = [d1, d2]" and "platform d1 \<noteq> platform d2"
    and "let r1 = startPlatform E st d1 (beginStream E s);
             r2 = startPlatform E st d2 (snd r1)
         in (fst r1 = Inr () \<and> fst r2 = Inl e) \<or> (fst r1 = Inl e \<and> fst r2 = Inr ())"
  shows "let r1 = startPlatform E st d1 (beginStream E s);
             r2 = startPlatform E st d2 (snd r1);
             good = (if fst r1 = Inr () then d1 else d2);
             bad = (if fst r1 = Inr () then d2 else d1);
             before_good = (if fst r1 = Inr () then beginStream E s else snd r1);
             after_good = snd (if fst r1 = Inr () then r1 else r2);
             after_bad = snd (if fst r1 = Inr () then r2 else r1);
             calls1 = new_calls (beginStream E s) (snd r1);
             calls2 = new_calls (snd r1) (snd r2);
             final = snd (startStream E st s)
         in platform_entry (platforms (currentStatus final)) (platform bad) =
              Some \<lparr>isStreaming = False, streamId = None, viewerCount = None,
                     p_startedAt = None, p_error = Some (message e)\<rparr>
          \<and> e = External (message e)
          \<and> outcome E (butlast (trace after_bad)) (last (trace after_bad)) = Inl (message e)
          \<and> call_target (last (trace after_bad)) = Some (platform bad, accountId bad)
          \<and> (\<exists>sid. outcome E (trace before_good) (first_call st good) = Inr sid
                \<and> platform_entry (platforms (currentStatus final)) (platform good) =
                    Some \<lparr>isStreaming = True, streamId = Some sid, viewerCount = None,
                           p_startedAt = Some (clock E (butlast (trace after_good))),
                           p_error = None\<rparr>)
          \<and> trace final =
                trace s @ [NewDate] @ calls1 @ calls2 @ [MathRandom, SaveData ''stream_status'']
          \<and> calls1 \<noteq> [] \<and> hd calls1 = first_call st d1 \<and> (\<forall>c\<in>set calls1. call_for d1 c)
          \<and> calls2 \<noteq> [] \<and> hd calls2 = first_call st d2 \<and> (\<forall>c\<in>set calls2. call_for d2 c)
          \<and> (\<forall>x. outcome E (trace (snd r2) @ [MathRandom]) (SaveData ''stream_status'') = Inr x \<longrightarrow>
                fst (startStream E st s) = Inr () \<and> isActive (currentStatus final)
                \<and> stream_status (storage final) = Some (currentStatus final))"
proof -
  let ?s2 = "beginStream E s"
  let ?r1 = "startPlatform E st d1 ?s2"
  let ?r2 = "startPlatform E st d2 (snd ?r1)"
  let ?good = "if fst ?r1 = Inr () then d1 else d2"
  let ?bad = "if fst ?r1 = Inr () then d2 else d1"
  let ?bg = "if fst ?r1 = Inr () then ?s2 else snd ?r1"
  let ?ag = "snd (if fst ?r1 = Inr () then ?r1 else ?r2)"
  let ?ab = "snd (if fst ?r1 = Inr () then ?r2 else ?r1)"
  let ?calls1 = "new_calls ?s2 (snd ?r1)"
  let ?calls2 = "new_calls (snd ?r1) (snd ?r2)"
  let ?final = "snd (startStream E st s)"
  let ?slot = "platform_entry (platforms (currentStatus ?final))"
  from assms(3) have ne: "destinations s \<noteq> []"
    by auto
  have s3: "fold (startDestination E st) (filter enabled (destinations s)) ?s2 = snd ?r2"
    by (simp add: assms(3) startDestination_eq)
  have pf: "platforms (currentStatus ?final) = platforms (currentStatus (snd ?r2))"
    using startStream_accepted_platforms [OF assms(1,2) ne, of E st] s3 by simp
  have slot2: "?slot (platform d2) =
                 platform_entry (platforms (currentStatus (snd ?r2))) (platform d2)"
    by (simp add: pf)
  have slot1: "?slot (platform d1) =
                 platform_entry (platforms (currentStatus (snd ?r1))) (platform d1)"
    using startPlatform_other [of "platform d1" d2 E st "snd ?r1"] assms(4) by (simp add: pf)
  from assms(5) have cases: "(fst ?r1 = Inr () \<and> fst ?r2 = Inl e) \<or> (fst ?r1 = Inl e \<and> fst ?r2 = Inr ())"
    by (simp add: Let_def)
  have bad: "?slot (platform ?bad) =
               Some \<lparr>isStreaming = False, streamId = None, viewerCount = None,
                      p_startedAt = None, p_error = Some (message e)\<rparr>
             \<and> e = External (message e)
             \<and> outcome E (butlast (trace ?ab)) (last (trace ?ab)) = Inl (message e)
             \<and> call_target (last (trace ?ab)) = Some (platform ?bad, accountId ?bad)"
    using cases
  proof
    assume c: "fst ?r1 = Inr () \<and> fst ?r2 = Inl e"
    then show ?thesis
      using startPlatform_failed_fields [of E st d2 "snd ?r1" e] slot2 by simp
  next
    assume c: "fst ?r1 = Inl e \<and> fst ?r2 = Inr ()"
    then show ?thesis
      using startPlatform_failed_fields [of E st d1 ?s2 e] slot1 by simp
  qed
  have good: "\<exists>sid. outcome E (trace ?bg) (first_call st ?good) = Inr sid
                \<and> ?slot (platform ?good) =
                    Some \<lparr>isStreaming = True, streamId = Some sid, viewerCount = None,
                           p_startedAt = Some (clock E (butlast (trace ?ag))),
                           p_error = None\<rparr>"
    using cases
  proof
    assume c: "fst ?r1 = Inr () \<and> fst ?r2 = Inl e"
    then show ?thesis
      using startPlatform_live_fields [of E st d1 ?s2 "()"] slot1 by simp
  next
    assume c: "fst ?r1 = Inl e \<and> fst ?r2 = Inr ()"
    then show ?thesis
      using startPlatform_live_fields [of E st d2 "snd ?r1" "()"] slot2 by simp
  qed
  note t1 = startPlatform_trace [of ?s2 E st d1]
  note t2 = startPlatform_trace [of "snd ?r1" E st d2]
  have "trace (snd ?r2) = trace s @ [NewDate] @ ?calls1 @ ?calls2"
    using t1 t2 by (simp add: runs_on_def beginStream_facts)
  then have tr: "trace ?final =
       trace s @ [NewDate] @ ?calls1 @ ?calls2 @ [MathRandom, SaveData ''stream_status'']"
    using startStream_accepted_trace [OF assms(1,2) ne, of E st] s3 by simp
  have saved: "\<forall>x. outcome E (trace (snd ?r2) @ [MathRandom]) (SaveData ''stream_status'') = Inr x \<longrightarrow>
                fst (startStream E st s) = Inr () \<and> isActive (currentStatus ?final)
                \<and> stream_status (storage ?final) = Some (currentStatus ?final)"
    using startStream_accepted_saved [OF assms(1,2) ne, of E st] s3 by simp
  from bad good tr t1 t2 saved show ?thesis
    unfolding Let_def by blast
qed

theorem startStream_partial_failure_witness:
  "\<not> isActive (currentStatus (configured [yt_acc1, li_acc1]))
   \<and> currentConfig (configured [yt_acc1, li_acc1]) \<noteq> None
   \<and> filter enabled (destinations (configured [yt_acc1, li_acc1])) = [yt_acc1, li_acc1]
   \<and> platform yt_acc1 \<noteq> platform li_acc1
   \<and> fst (startPlatform (account_down Linkedin ''acc1'' ''LinkedIn API Error'') settings_T yt_acc1
             (beginStream (account_down Linkedin ''acc1'' ''LinkedIn API Error'')
                (configured [yt_acc1, li_acc1]))) = Inr ()
   \<and> fst (startPlatform (account_down Linkedin ''acc1'' ''LinkedIn API Error'') settings_T li_acc1
             (snd (startPlatform (account_down Linkedin ''acc1'' ''LinkedIn API Error'') settings_T
                     yt_acc1
                     (beginStream (account_down Linkedin ''acc1'' ''LinkedIn API Error'')
                        (configured [yt_acc1, li_acc1])))))
       = Inl (External ''LinkedIn API Error'')
   \<and> fst (startStream (account_down Linkedin ''acc1'' ''LinkedIn API Error'') settings_T
             (configured [yt_acc1, li_acc1])) = Inr ()
   \<and> isActive (currentStatus (snd (startStream (account_down Linkedin ''acc1'' ''LinkedIn API Error'')
             settings_T (configured [yt_acc1, li_acc1]))))
   \<and> linkedin (platforms (currentStatus (snd (startStream
             (account_down Linkedin ''acc1'' ''LinkedIn API Error'')
             settings_T (configured [yt_acc1, li_acc1])))))
       = Some \<lparr>isStreaming = False, streamId = None, viewerCount = None, p_startedAt = None,
                p_error = Some ''LinkedIn API Error''\<rparr>
   \<and> youtube (platforms (currentStatus (snd (startStream
             (account_down Linkedin ''acc1'' ''LinkedIn API Error'')
             settings_T (configured [yt_acc1, li_acc1])))))
       = Some \<lparr>isStreaming = True, streamId = Some ''yt-1'', viewerCount = None,
                p_startedAt = Some 5000, p_error = None\<rparr>"
proof -
  let ?E = "account_down Linkedin ''acc1'' ''LinkedIn API Error''"
  let ?s = "configured [yt_acc1, li_acc1]"
  let ?r1 = "startPlatform ?E settings_T yt_acc1 (beginStream ?E ?s)"
  let ?r2 = "startPlatform ?E settings_T li_acc1 (snd ?r1)"
  let ?final = "snd (startStream ?E settings_T ?s)"
  have h1: "\<not> isActive (currentStatus ?s)"
    by (simp add: configured_def initialStatus_def)
  have h2: "currentConfig ?s \<noteq> None"
    by (simp add: configured_def)
  have h3: "filter enabled (destinations ?s) = [yt_acc1, li_acc1]"
    by (simp add: configured_def yt_acc1_def li_acc1_def)
  have h4: "platform yt_acc1 \<noteq> platform li_acc1"
    by (simp add: yt_acc1_def li_acc1_def)
  have r1: "fst ?r1 = Inr ()"
    by (simp add: start_defs account_down_def scripted_def yt_acc1_def)
  have r2: "fst ?r2 = Inl (External ''LinkedIn API Error'')"
    by (simp add: start_defs account_down_def scripted_def li_acc1_def)
  have h5: "let r1 = ?r1; r2 = startPlatform ?E settings_T li_acc1 (snd r1)
            in (fst r1 = Inr () \<and> fst r2 = Inl (External ''LinkedIn API Error''))
               \<or> (fst r1 = Inl (External ''LinkedIn API Error'') \<and> fst r2 = Inr ())"
    using r1 r2 by (simp add: Let_def)
  have sv: "outcome ?E (trace (snd ?r2) @ [MathRandom]) (SaveData ''stream_status'') = Inr []"
    by (simp add: account_down_def scripted_def)
  have p: "platform li_acc1 = Linkedin" "platform yt_acc1 = Youtube"
    by (simp_all add: yt_acc1_def li_acc1_def)
  have fc: "first_call settings_T yt_acc1 = YtCreateBroadcast ''acc1'' settings_T"
    by (simp add: first_call_def yt_acc1_def)
  have oc: "outcome ?E tr (YtCreateBroadcast ''acc1'' settings_T) = Inr ''yt-1''" for tr
    by (simp add: account_down_def scripted_def)
  have tr1: "trace (snd ?r1) =
               [NewDate, YtCreateBroadcast ''acc1'' settings_T,
                YtCreateStream ''acc1'' ''T'' ''720p'' 30,
                YtBindStreamToBroadcast ''acc1'' ''yt-1'' ''yt-1'',
                YtStartBroadcast ''acc1'' ''yt-1'', NewDate]"
    by (simp add: start_defs account_down_def scripted_def yt_acc1_def beginStream_def
          configured_def config_resolution_def config_frameRate_def cfg_720p_def settings_T_def)
  have ck: "clock ?E (butlast (trace (snd ?r1))) = 5000"
    by (simp only: tr1) (simp add: account_down_def scripted_def)
  note th = startStream_partial_failure [OF h1 h2 h3 h4 h5, unfolded Let_def]
  from th r1 p have bad: "linkedin (platforms (currentStatus ?final)) =
       Some \<lparr>isStreaming = False, streamId = None, viewerCount = None, p_startedAt = None,
              p_error = Some ''LinkedIn API Error''\<rparr>"
    by simp
  from th r1 obtain sid where
    "outcome ?E (trace (beginStream ?E ?s)) (first_call settings_T yt_acc1) = Inr sid"
    and sl: "platform_entry (platforms (currentStatus ?final)) (platform yt_acc1) =
       Some \<lparr>isStreaming = True, streamId = Some sid, viewerCount = None,
              p_startedAt = Some (clock ?E (butlast (trace (snd ?r1)))), p_error = None\<rparr>"
    by auto
  then have "sid = ''yt-1''"
    by (simp add: fc oc)
  with sl ck p have good: "youtube (platforms (currentStatus ?final)) =
       Some \<lparr>isStreaming = True, streamId = Some ''yt-1'', viewerCount = None,
              p_startedAt = Some 5000, p_error = None\<rparr>"
    by simp
  from th sv have ok: "fst (startStream ?E settings_T ?s) = Inr () \<and> isActive (currentStatus ?final)"
    by blast
  from h1 h2 h3 h4 r1 r2 bad good ok show ?thesis
    by simp
qed

subsection \<open>Stopping\<close>

text \<open>What one step "stop the platform if it is streaming" of \<open>stopStream\<close> changes.\<close>

lemmas stop_defs = stopIfStreaming_def stopPlatformStream_def extern_def set_platform_def

lemma stopIfStreaming_outer:
  "(snd (stopIfStreaming E p s))\<lparr>trace := tr, currentStatus := cs\<rparr> =
     s\<lparr>trace := tr, currentStatus := cs\<rparr>"
  by (cases p) (simp_all add: stop_defs split: sum.splits prod.splits option.splits)










lemma stopStream_active:
  assumes "isActive (currentStatus s)"
  shows "stopStream E s =
         (case fst (stopIfStreaming E Youtube s) of
            Inl e \<Rightarrow> (Inl e, snd (stopIfStreaming E Youtube s))
          | Inr _ \<Rightarrow>
              (case fst (stopIfStreaming E Linkedin (snd (stopIfStreaming E Youtube s))) of
                 Inl e \<Rightarrow> (Inl e, snd (stopIfStreaming E Linkedin (snd (stopIfStreaming E Youtube s))))
               | Inr _ \<Rightarrow> finishStop E (snd (stopIfStreaming E Linkedin (snd (stopIfStreaming E Youtube s))))))"
  using assms by (auto simp add: stopStream_def split: prod.splits sum.splits)

lemma on_air_value:
  "on_air =
     \<lparr>currentConfig = Some cfg_720p,
      destinations = [yt_acc1, li_acc1],
      currentStatus =
        \<lparr>isActive = True, startedAt = Some 0, duration = None, bitrate = None,
         platforms = \<lparr>youtube = Some (live_entry ''yt-1'' 5000),
                      linkedin = Some (live_entry ''li-1'' 8000)\<rparr>,
         error = None\<rparr>,
      streamProcessId = Some 4711,
      storage =
        \<lparr>relay_config = None, stream_destinations = None,
         stream_status =
           Some \<lparr>isActive = True, startedAt = Some 0, duration = None, bitrate = None,
                 platforms = \<lparr>youtube = Some (live_entry ''yt-1'' 5000),
                              linkedin = Some (live_entry ''li-1'' 8000)\<rparr>,
                 error = None\<rparr>\<rparr>,
      trace =
        [NewDate, YtCreateBroadcast ''acc1'' settings_T,
         YtCreateStream ''acc1'' ''T'' ''720p'' 30,
         YtBindStreamToBroadcast ''acc1'' ''yt-1'' ''yt-1'',
         YtStartBroadcast ''acc1'' ''yt-1'', NewDate,
         LiCreateLiveEvent ''acc1'' settings_T,
         LiStartLiveEvent ''acc1'' ''li-1'', NewDate, MathRandom,
         SaveData ''stream_status'']\<rparr>"
  by (simp add: on_air_def startStream_def startDestination_def start_defs beginStream_def
      saveData_def Let_def configured_def initialStatus_def no_platforms_def
      calm_def scripted_def yt_acc1_def li_acc1_def settings_T_def cfg_720p_def
      config_resolution_def config_frameRate_def empty_storage_def)




subsection \<open>Removing a destination that is streaming\<close>

text \<open>
  \<open>removeDestination\<close> filters the destination out of the list before it calls
  \<open>stopPlatformStream(platform, accountId)\<close>, which then looks the destination up in that
  list. For a non-empty account id the lookup cannot succeed, whatever the list was.
\<close>

lemma find_after_remove:
  "find (\<lambda>d. platform d = p \<and> accountId d = a)
     (filter (\<lambda>d. \<not> same_identity p a d) ds) = None"
  by (induction ds) (simp_all add: same_identity_def)

lemma removeDestination_while_streaming:
  assumes "isActive (currentStatus s)"
    and "streaming (platform_entry (platforms (currentStatus s)) p)"
    and "truthy (entry_streamId (platform_entry (platforms (currentStatus s)) p))"
    and "a \<noteq> []"
    and "outcome E (trace s) (SaveData ''stream_destinations'') = Inr x"
  shows "fst (removeDestination E p a s) = Inl (DestinationNotFound p (Some a))
         \<and> currentStatus (snd (removeDestination E p a s)) = currentStatus s
         \<and> destinations (snd (removeDestination E p a s)) =
             filter (\<lambda>d. \<not> same_identity p a d) (destinations s)"
proof -
  from assms(2) obtain v where v: "platform_entry (platforms (currentStatus s)) p = Some v"
    by (cases "platform_entry (platforms (currentStatus s)) p") simp_all
  with assms find_after_remove [of p a "destinations s"] show ?thesis
    by (cases p)
       (simp_all add: removeDestination_def stopPlatformStream_def saveData_def extern_def Let_def)
qed

text \<open>
  Claim C6 says that \<open>removeDestination\<close> of a platform that is streaming downgrades that
  platform's entry to \<open>isStreaming = false\<close> and returns without error. The code at the
  input "both platforms live, remove the YouTube destination": the destination is removed
  and the list saved, then \<open>stopPlatformStream\<close> throws "YouTube destination not found for
  account acc1", \<open>removeDestination\<close> is rejected with that error and the YouTube entry
  still says \<open>isStreaming = true\<close>.
\<close>

theorem removeDestination_streaming_rejects:
  "isActive (currentStatus on_air)
   \<and> streaming (youtube (platforms (currentStatus on_air)))
   \<and> destinations on_air = [yt_acc1, li_acc1]
   \<and> fst (removeDestination calm Youtube ''acc1'' on_air) =
       Inl (DestinationNotFound Youtube (Some ''acc1''))
   \<and> message (DestinationNotFound Youtube (Some ''acc1'')) =
       ''YouTube destination not found for account acc1''
   \<and> destinations (snd (removeDestination calm Youtube ''acc1'' on_air)) = [li_acc1]
   \<and> youtube (platforms (currentStatus (snd (removeDestination calm Youtube ''acc1'' on_air)))) =
       Some (live_entry ''yt-1'' 5000)
   \<and> isStreaming (live_entry ''yt-1'' 5000)"
  by (simp add: on_air_value removeDestination_def stopPlatformStream_def saveData_def extern_def
      Let_def same_identity_def calm_def scripted_def live_entry_def yt_acc1_def li_acc1_def)

subsection \<open>The account cache\<close>

text \<open>
  \<open>saveAccount\<close> clears the cache slot of the account's own key and the slot of
  \<open>["accounts"]\<close>, and leaves the slot of \<open>["accounts", platform]\<close> alone: a list of the
  platform's accounts cached before the save is what \<open>getAccountsByPlatform\<close> returns
  after it, until the slot expires.
\<close>

lemma saveAccount_keeps_platform_list:
  assumes "cacheExpiry sm (ACCOUNTS_PREFIX @ [platform_key p]) = Some e"
    and "e \<noteq> 0" and "now < e"
    and "cache sm (ACCOUNTS_PREFIX @ [platform_key p]) = Some (CachedAccounts xs)"
  shows "fst (getAccountsByPlatform now f p (snd (saveAccount None a sm))) = Inr xs"
  using assms
  by (simp add: getAccountsByPlatform_def saveAccount_def getCachedValue_def clearCacheKey_def
      ACCOUNTS_PREFIX_def Let_def)

text \<open>The listing follows the order of the keys, not the order of the writes.\<close>

lemma getAccountsByPlatform_key_order:
  "fst (getAccountsByPlatform 0 None Youtube
          (snd (saveAccount None acct_a
                  (snd (saveAccount None (acct_a\<lparr>acct_id := ''acc2''\<rparr>) empty_manager))))) =
     Inr [acct_a, acct_a\<lparr>acct_id := ''acc2''\<rparr>]"
  by (simp add: getAccountsByPlatform_def saveAccount_def getCachedValue_def clearCacheKey_def
      setCachedValue_def kv_list_def empty_manager_def ACCOUNTS_PREFIX_def acct_a_def Let_def
      less_eq_char_def less_char_def)

text \<open>
  Claim C7 says that after a successful \<open>saveAccount(a)\<close> every read within the cache TTL
  reflects the write. The code at the input "list the YouTube accounts of an empty store at
  time 0, save a YouTube account, list again one second later": \<open>getAccount\<close> and
  \<open>getAllAccounts\<close> see the account, \<open>getAccountsByPlatform\<close> still returns the empty list
  cached before the save, because its slot is not cleared (\<open>deleteAccount\<close> does clear it).
\<close>

theorem saveAccount_stale_platform_list:
  "fst (getAccountsByPlatform 0 None Youtube empty_manager) = Inr []
   \<and> fst (saveAccount None acct_a listed) = Inr ()
   \<and> kv listed_saved = [([''accounts'', ''youtube'', ''acc1''], acct_a)]
   \<and> fst (getAccount 1000 None Youtube ''acc1'' listed_saved) = Inr (Some acct_a)
   \<and> fst (getAllAccounts 1000 None listed_saved) = Inr [acct_a]
   \<and> fst (getAccountsByPlatform 1000 None Youtube listed_saved) = Inr []
   \<and> 1000 < DEFAULT_CACHE_TTL
   \<and> cacheExpiry listed_saved [''accounts'', ''youtube''] = Some 300000
   \<and> cacheExpiry (snd (deleteAccount None Youtube ''acc1'' listed)) [''accounts'', ''youtube''] = None"
  by (simp add: listed_saved_def listed_def empty_manager_def acct_a_def
      getAccountsByPlatform_def saveAccount_def getAccount_def getAllAccounts_def deleteAccount_def
      getCachedValue_def setCachedValue_def clearCacheKey_def kv_list_def kv_delete_def
      ACCOUNTS_PREFIX_def DEFAULT_CACHE_TTL_def Let_def)

subsection \<open>Startup recovery\<close>

text \<open>
  \<open>initialize\<close> is started at module load and not awaited. The function \<open>initialize\<close> of the
  model is its run to the end with no other call in between, which is four pieces of
  \<open>init_step\<close>; the states in between are those in which another call can be served.
\<close>

lemma initialize_in_steps:
  "init_run E 4 s = (Finished, initialize E s)"
  by (simp add: init_run_def eval_nat_numeral initialize_def extern_def Let_def saveData_def
        split: sum.splits option.splits)

lemma initialize_never_active:
  "\<not> isActive (currentStatus (initialize E (module_load st)))"
  by (simp add: initialize_def module_load_def initialStatus_def extern_def saveData_def Let_def
      split: sum.splits option.splits)




lemma init_run_saved_on_air:
  "init_run calm 2 (module_load saved_on_air) =
     (AwaitStatus,
      \<lparr>currentConfig = Some cfg_720p, destinations = [yt_acc1, li_acc1],
       currentStatus = initialStatus, streamProcessId = None, storage = saved_on_air,
       trace = [GetData ''relay_config'', GetData ''stream_destinations'']\<rparr>)"
  by (simp add: init_run_def eval_nat_numeral module_load_def extern_def calm_def scripted_def
      saved_on_air_def)




text \<open>
  What the missing wait can do. When \<open>initialize\<close> resumes at the load of the status and
  finds in the store an active status that is the current one, saved by a start served in
  the meantime, it takes it for an interrupted one and replaces the current status by its
  correction. With the store of the scenario a \<open>startStream\<close> served while \<open>initialize\<close>
  awaits the status brings both platforms live, and the resumed \<open>initialize\<close> then reports
  the relay inactive and interrupted while both platforms are still marked streaming.
\<close>

lemma init_resumes_on_saved_status:
  assumes "stream_status (storage s) = Some (currentStatus s)"
    and "isActive (currentStatus s)"
    and "outcome E (trace s) (GetData ''stream_status'') = Inr a"
    and "outcome E (trace s @ [GetData ''stream_status'']) (SaveData ''stream_status'') = Inr b"
  shows "fst (init_steps E 2 (AwaitStatus, s)) = Finished
         \<and> currentStatus (snd (init_steps E 2 (AwaitStatus, s))) =
             (currentStatus s)\<lparr>isActive := False, error := Some interrupted\<rparr>"
  using assms by (simp add: eval_nat_numeral extern_def saveData_def)

lemma early_start_marked_interrupted:
  "fst (init_run calm 2 (module_load saved_on_air)) = AwaitStatus
   \<and> fst (startStream calm settings_T (snd (init_run calm 2 (module_load saved_on_air)))) = Inr ()
   \<and> fst (init_steps calm 2
          (AwaitStatus,
           snd (startStream calm settings_T (snd (init_run calm 2 (module_load saved_on_air))))))
       = Finished
   \<and> \<not> isActive (currentStatus (snd (init_steps calm 2
          (AwaitStatus,
           snd (startStream calm settings_T (snd (init_run calm 2 (module_load saved_on_air))))))))
   \<and> error (currentStatus (snd (init_steps calm 2
          (AwaitStatus,
           snd (startStream calm settings_T (snd (init_run calm 2 (module_load saved_on_air))))))))
       = Some ''Stream was interrupted due to application restart''
   \<and> streaming (youtube (platforms (currentStatus (snd (init_steps calm 2
          (AwaitStatus,
           snd (startStream calm settings_T (snd (init_run calm 2 (module_load saved_on_air))))))))))
   \<and> streaming (linkedin (platforms (currentStatus (snd (init_steps calm 2
          (AwaitStatus,
           snd (startStream calm settings_T (snd (init_run calm 2 (module_load saved_on_air))))))))))"
proof -
  let ?r = "startStream calm settings_T (snd (init_run calm 2 (module_load saved_on_air)))"
  have r: "fst ?r = Inr ()
           \<and> isActive (currentStatus (snd ?r))
           \<and> stream_status (storage (snd ?r)) = Some (currentStatus (snd ?r))
           \<and> streaming (youtube (platforms (currentStatus (snd ?r))))
           \<and> streaming (linkedin (platforms (currentStatus (snd ?r))))"
    by (simp only: init_run_saved_on_air snd_conv)
       (simp add: startStream_def startDestination_def start_defs beginStream_def
          saveData_def Let_def initialStatus_def calm_def scripted_def yt_acc1_def li_acc1_def
          live_entry_def)
  have o: "outcome calm (trace (snd ?r)) (GetData ''stream_status'') = Inr []"
    "outcome calm (trace (snd ?r) @ [GetData ''stream_status'']) (SaveData ''stream_status'') = Inr []"
    by (simp_all add: calm_def scripted_def)
  from r have r1: "stream_status (storage (snd ?r)) = Some (currentStatus (snd ?r))"
    and r2: "isActive (currentStatus (snd ?r))"
    by blast+
  note fin = init_resumes_on_saved_status [OF r1 r2 o]
  have p: "fst (init_run calm 2 (module_load saved_on_air)) = AwaitStatus"
    by (simp only: init_run_saved_on_air fst_conv)
  from fin r p show ?thesis
    by (simp add: interrupted_def)
qed

subsection \<open>Invariants of the module state\<close>

text \<open>
  The hypotheses used above hold in every state that the operations produce from the
  loaded module: after \<open>initialize\<close> the relay is inactive, an operation makes it active
  only when a configuration is set and never removes the configuration; \<open>addDestination\<close>
  and \<open>removeDestination\<close> keep the identities of the registry distinct, and the other
  operations do not change the registry.
\<close>

lemma fold_start_config:
  "currentConfig (fold (startDestination E st) ds s) = currentConfig s"
  "destinations (fold (startDestination E st) ds s) = destinations s"
proof -
  have "(fold (startDestination E st) ds s)\<lparr>trace := [], currentStatus := initialStatus\<rparr> =
        s\<lparr>trace := [], currentStatus := initialStatus\<rparr>"
    by (rule fold_start_outer)
  then have "currentConfig ((fold (startDestination E st) ds s)\<lparr>trace := [], currentStatus := initialStatus\<rparr>) =
             currentConfig (s\<lparr>trace := [], currentStatus := initialStatus\<rparr>)"
    and "destinations ((fold (startDestination E st) ds s)\<lparr>trace := [], currentStatus := initialStatus\<rparr>) =
             destinations (s\<lparr>trace := [], currentStatus := initialStatus\<rparr>)"
    by simp_all
  then show "currentConfig (fold (startDestination E st) ds s) = currentConfig s"
    and "destinations (fold (startDestination E st) ds s) = destinations s"
    by simp_all
qed

lemma saveData_frame:
  "currentConfig (snd (saveData E v s)) = currentConfig s"
  "destinations (snd (saveData E v s)) = destinations s"
  "currentStatus (snd (saveData E v s)) = currentStatus s"
  by (simp_all add: saveData_def extern_def split: sum.splits)

lemma start_rejected_frame:
  "currentConfig (snd (start_rejected e s)) = currentConfig s"
  "destinations (snd (start_rejected e s)) = destinations s"
  "\<not> isActive (currentStatus (snd (start_rejected e s)))"
  by (simp_all add: start_rejected_def)

lemma beginStream_config:
  "currentConfig (beginStream E s) = currentConfig s"
  by (simp add: beginStream_def newDate_def)

lemma startStream_config:
  "currentConfig (snd (startStream E st s)) = currentConfig s"
  "destinations (snd (startStream E st s)) = destinations s"
proof -
  let ?s3 = "fold (startDestination E st) (filter enabled (destinations (beginStream E s)))
               (beginStream E s)"
  let ?s4 = "?s3\<lparr>streamProcessId := Some (rand E (trace ?s3) mod 10000),
                     trace := trace ?s3 @ [MathRandom]\<rparr>"
  have c4: "currentConfig ?s4 = currentConfig s" "destinations ?s4 = destinations s"
    by (simp_all add: fold_start_config beginStream_config beginStream_destinations)
  have "currentConfig (snd (case saveData E (StoredStatus (currentStatus ?s4)) ?s4 of
                               (Inl e, s5) \<Rightarrow> start_rejected e s5
                             | (Inr _, s5) \<Rightarrow> (Inr (), s5))) = currentConfig s
        \<and> destinations (snd (case saveData E (StoredStatus (currentStatus ?s4)) ?s4 of
                               (Inl e, s5) \<Rightarrow> start_rejected e s5
                             | (Inr _, s5) \<Rightarrow> (Inr (), s5))) = destinations s"
    using saveData_frame(1,2) [of E "StoredStatus (currentStatus ?s4)" ?s4] c4
    by (cases "saveData E (StoredStatus (currentStatus ?s4)) ?s4")
       (auto simp add: start_rejected_frame split: sum.splits)
  then show "currentConfig (snd (startStream E st s)) = currentConfig s"
    and "destinations (snd (startStream E st s)) = destinations s"
    by (simp_all add: startStream_def Let_def start_rejected_frame)
qed
lemma startStream_invariant:
  assumes "active_implies_configured s"
  shows "active_implies_configured (snd (startStream E st s))"
proof (cases "isActive (currentStatus s)")
  case True
  with assms show ?thesis
    by (simp add: active_implies_configured_def startStream_def)
next
  case False
  show ?thesis
  proof (cases "currentConfig s = None")
    case True
    with False show ?thesis
      by (simp add: active_implies_configured_def startStream_def start_rejected_def)
  next
    case False
    then show ?thesis
      by (simp add: active_implies_configured_def startStream_config)
  qed
qed

lemma stopPlatformStream_frame:
  "currentConfig (snd (stopPlatformStream E p a s)) = currentConfig s"
  "destinations (snd (stopPlatformStream E p a s)) = destinations s"
  "isActive (currentStatus (snd (stopPlatformStream E p a s))) = isActive (currentStatus s)"
  by (simp_all add: stopPlatformStream_def extern_def set_platform_def
      split: sum.splits prod.splits option.splits)
lemma stopIfStreaming_frame:
  "currentConfig (snd (stopIfStreaming E p s)) = currentConfig s"
  "destinations (snd (stopIfStreaming E p s)) = destinations s"
  "isActive (currentStatus (snd (stopIfStreaming E p s))) = isActive (currentStatus s)"
  by (simp_all add: stopIfStreaming_def stopPlatformStream_frame)

lemma finishStop_frame:
  "currentConfig (snd (finishStop E s)) = currentConfig s"
  "destinations (snd (finishStop E s)) = destinations s"
  "\<not> isActive (currentStatus (snd (finishStop E s)))"
  by (simp_all add: finishStop_def Let_def newDate_def saveData_frame split: option.splits)

lemma stopStream_config:
  "currentConfig (snd (stopStream E s)) = currentConfig s"
  "destinations (snd (stopStream E s)) = destinations s"
proof -
  show "currentConfig (snd (stopStream E s)) = currentConfig s"
  proof (cases "isActive (currentStatus s)")
    case True
    then show ?thesis
      by (simp add: stopStream_active stopIfStreaming_frame finishStop_frame split: sum.splits)
  next
    case False
    then show ?thesis by (simp add: stopStream_def)
  qed
  show "destinations (snd (stopStream E s)) = destinations s"
  proof (cases "isActive (currentStatus s)")
    case True
    then show ?thesis
      by (simp add: stopStream_active stopIfStreaming_frame finishStop_frame split: sum.splits)
  next
    case False
    then show ?thesis by (simp add: stopStream_def)
  qed
qed

lemma stopStream_invariant:
  assumes "active_implies_configured s"
  shows "active_implies_configured (snd (stopStream E s))"
proof (cases "isActive (currentStatus s)")
  case True
  with assms show ?thesis
    by (simp add: active_implies_configured_def stopStream_config)
next
  case False
  with assms show ?thesis
    by (simp add: stopStream_def)
qed

lemma configureRelay_preserves:
  assumes "active_implies_configured s"
  shows "active_implies_configured (snd (configureRelay E c s))"
  using assms
  by (simp add: configureRelay_def saveData_def extern_def active_implies_configured_def
      split: sum.splits)

lemma addDestination_preserves:
  assumes "active_implies_configured s"
  shows "active_implies_configured (snd (addDestination E d s))"
  using assms
  by (simp add: addDestination_def Let_def saveData_frame active_implies_configured_def)

lemma removeDestination_preserves:
  assumes "active_implies_configured s"
  shows "active_implies_configured (snd (removeDestination E p a s))"
  using assms
  by (simp add: removeDestination_def Let_def saveData_def extern_def stopPlatformStream_frame
      active_implies_configured_def split: sum.splits)

lemma initialize_establishes:
  "active_implies_configured (initialize E (module_load st))"
  by (simp add: active_implies_configured_def initialize_never_active)

lemma addDestination_distinct:
  assumes "registry_distinct s"
  shows "registry_distinct (snd (addDestination E d s))"
  using assms by (simp add: registry_distinct_def destinations_addDestination distinct_upsert)

lemma removeDestination_distinct:
  assumes "registry_distinct s"
  shows "registry_distinct (snd (removeDestination E p a s))"
  using assms
  by (simp add: registry_distinct_def removeDestination_def Let_def saveData_def extern_def
      stopPlatformStream_frame distinct_map_filter split: sum.splits)

lemma start_stop_configure_distinct:
  "registry_distinct (snd (startStream E st s)) = registry_distinct s"
  "registry_distinct (snd (stopStream E s)) = registry_distinct s"
  "registry_distinct (snd (configureRelay E c s)) = registry_distinct s"
  by (simp_all add: registry_distinct_def startStream_config stopStream_config
      configureRelay_def saveData_def extern_def split: sum.splits)

text \<open>
  The registry is filled from the store by \<open>initialize\<close>, and the store is written with
  the registry by \<open>addDestination\<close> and \<open>removeDestination\<close>; so the identities are distinct
  in both, in every state of the module.
\<close>

lemma saveData_store:
  "store_distinct (snd (saveData E (StoredStatus r) s)) = store_distinct s"
  "store_distinct (snd (saveData E (StoredConfig c) s)) = store_distinct s"
  "distinct (map identity ds) \<Longrightarrow> store_distinct s \<Longrightarrow>
   store_distinct (snd (saveData E (StoredDestinations ds) s))"
  by (simp_all add: saveData_def extern_def store_distinct_def split: sum.splits)

lemma store_distinct_update:
  "store_distinct (s\<lparr>currentStatus := cs\<rparr>) = store_distinct s"
  "store_distinct (s\<lparr>trace := tr\<rparr>) = store_distinct s"
  "store_distinct (s\<lparr>streamProcessId := pid\<rparr>) = store_distinct s"
  "store_distinct (s\<lparr>destinations := ds\<rparr>) = store_distinct s"
  "store_distinct (s\<lparr>currentConfig := c\<rparr>) = store_distinct s"
  by (simp_all add: store_distinct_def)

lemma store_distinct_cong:
  "storage s' = storage s \<Longrightarrow> store_distinct s' = store_distinct s"
  by (simp add: store_distinct_def)

lemma startStream_store:
  "store_distinct (snd (startStream E st s)) = store_distinct s"
proof -
  let ?s3 = "fold (startDestination E st) (filter enabled (destinations (beginStream E s)))
               (beginStream E s)"
  let ?s4 = "?s3\<lparr>streamProcessId := Some (rand E (trace ?s3) mod 10000),
                     trace := trace ?s3 @ [MathRandom]\<rparr>"
  have "storage (?s3\<lparr>trace := [], currentStatus := initialStatus\<rparr>) =
        storage ((beginStream E s)\<lparr>trace := [], currentStatus := initialStatus\<rparr>)"
    by (simp only: fold_start_outer)
  then have "storage ?s4 = storage s"
    by (simp add: beginStream_def newDate_def)
  then have s4: "store_distinct ?s4 = store_distinct s"
    by (rule store_distinct_cong)
  have rej: "store_distinct (snd (start_rejected e x)) = store_distinct x" for e x
    by (simp add: start_rejected_def store_distinct_def)
  have "store_distinct (snd (case saveData E (StoredStatus (currentStatus ?s4)) ?s4 of
                               (Inl e, s5) \<Rightarrow> start_rejected e s5
                             | (Inr _, s5) \<Rightarrow> (Inr (), s5))) = store_distinct s"
    using saveData_store(1) [of E "currentStatus ?s4" ?s4] s4
    by (cases "saveData E (StoredStatus (currentStatus ?s4)) ?s4")
       (auto simp add: rej split: sum.splits)
  then show ?thesis
    by (simp add: startStream_def Let_def rej)
qed

lemma stopIfStreaming_store:
  "store_distinct (snd (stopIfStreaming E p s)) = store_distinct s"
proof -
  have "storage ((snd (stopIfStreaming E p s))\<lparr>trace := [], currentStatus := initialStatus\<rparr>) =
        storage (s\<lparr>trace := [], currentStatus := initialStatus\<rparr>)"
    by (simp only: stopIfStreaming_outer)
  then have "storage (snd (stopIfStreaming E p s)) = storage s"
    by simp
  then show ?thesis
    by (rule store_distinct_cong)
qed

lemma finishStop_store:
  "store_distinct (snd (finishStop E s)) = store_distinct s"
  by (simp add: finishStop_def Let_def newDate_def saveData_store(1) store_distinct_update
      split: option.splits)

lemma stopStream_store:
  "store_distinct (snd (stopStream E s)) = store_distinct s"
proof (cases "isActive (currentStatus s)")
  case True
  then show ?thesis
    by (simp add: stopStream_active stopIfStreaming_store finishStop_store split: sum.splits)
next
  case False
  then show ?thesis by (simp add: stopStream_def)
qed

lemma configureRelay_store:
  "store_distinct (snd (configureRelay E c s)) = store_distinct s"
  by (simp add: configureRelay_def saveData_def extern_def store_distinct_def split: sum.splits)

lemma stopPlatformStream_storage:
  "storage (snd (stopPlatformStream E p a s)) = storage s"
  by (simp add: stopPlatformStream_def extern_def set_platform_def
      split: sum.splits prod.splits option.splits)

lemma addDestination_store:
  assumes "registry_distinct s" and "store_distinct s"
  shows "store_distinct (snd (addDestination E d s))"
proof -
  have "distinct (map identity (upsert d (destinations s)))"
    using assms(1) by (simp add: registry_distinct_def distinct_upsert)
  moreover have "store_distinct (s\<lparr>destinations := upsert d (destinations s)\<rparr>)"
    using assms(2) by (simp add: store_distinct_update)
  ultimately show ?thesis
    by (simp add: addDestination_def Let_def saveData_store(3))
qed

lemma removeDestination_store:
  assumes "registry_distinct s" and "store_distinct s"
  shows "store_distinct (snd (removeDestination E p a s))"
  using assms
  by (simp add: removeDestination_def Let_def saveData_def extern_def stopPlatformStream_storage
      registry_distinct_def store_distinct_def distinct_map_filter split: sum.splits)

lemma init_step_distinct:
  assumes "registry_distinct s" and "store_distinct s"
  shows "registry_distinct (snd (init_step E pc s)) \<and> store_distinct (snd (init_step E pc s))"
  using assms
  by (cases pc)
     (auto simp add: extern_def saveData_def registry_distinct_def store_distinct_def
        split: sum.splits option.splits)

lemma init_steps_distinct:
  "registry_distinct (snd c) \<Longrightarrow> store_distinct (snd c) \<Longrightarrow>
   registry_distinct (snd (init_steps E k c)) \<and> store_distinct (snd (init_steps E k c))"
  by (induction k arbitrary: c) (simp_all add: init_step_distinct)

text \<open>\<open>initialize\<close> on the loaded module leaves a registry with distinct identities when
  the stored list has distinct identities.\<close>

lemma initialize_distinct:
  assumes "store_distinct (module_load st)"
  shows "registry_distinct (initialize E (module_load st))
         \<and> store_distinct (initialize E (module_load st))"
proof -
  have "registry_distinct (module_load st)"
    by (simp add: registry_distinct_def module_load_def)
  with assms have "registry_distinct (snd (init_run E 4 (module_load st)))
                   \<and> store_distinct (snd (init_run E 4 (module_load st)))"
    unfolding init_run_def by (intro init_steps_distinct) simp_all
  then show ?thesis
    by (simp add: initialize_in_steps)
qed

lemma reachable_distinct:
  "reachable s \<Longrightarrow> registry_distinct s \<and> store_distinct s"
proof (induction rule: reachable.induct)
  case fresh
  show ?case
    by (simp add: registry_distinct_def store_distinct_def module_load_def empty_storage_def)
next
  case (restart s)
  then show ?case
    by (simp add: registry_distinct_def store_distinct_def module_load_def)
next
  case (piece s E pc)
  then show ?case by (simp add: init_step_distinct)
next
  case (configure s E c)
  then show ?case by (simp add: start_stop_configure_distinct configureRelay_store)
next
  case (add s E d)
  then show ?case by (simp add: addDestination_distinct addDestination_store)
next
  case (remove s E p a)
  then show ?case by (simp add: removeDestination_distinct removeDestination_store)
next
  case (start s E st)
  then show ?case by (simp add: start_stop_configure_distinct startStream_store)
next
  case (stop s E)
  then show ?case by (simp add: start_stop_configure_distinct stopStream_store)
qed

end
